theory Spec2Isabelle
  imports Main "HOL-Library.Word" "HOL-Library.Sublist"
begin

section \<open>The traffic monitor of conduit-cli (cli/scripts/monitor/main.go)\<close>

text \<open>
  The monitor supervises the \<open>conduit\<close> worker: it launches it, scrapes its two byte
  counters every ten seconds, accounts the usage into a ledger (\<open>TrafficState\<close>) and
  relaunches the worker with reduced limits once a threshold is crossed.

  Conventions of the embedding:
  \<^item> Go's \<open>int64\<close> and \<open>int\<close> are \<open>64 word\<close>: \<open>+\<close>, \<open>-\<close> and \<open>*\<close> wrap, comparisons are
    the signed ones (\<open><s\<close>, \<open>\<le>s\<close>), \<open>sint\<close> reads the value.
  \<^item> a \<open>time.Time\<close> is an instant counted in nanoseconds, an \<open>int\<close>; \<open>t.Add(d)\<close> is
    \<open>t + sint d\<close> and \<open>a.After(b)\<close> is \<open>b < a\<close>.
  \<^item> what the program takes from outside the repository is a parameter, collected in
    the record \<open>extern\<close>: \<open>strconv.ParseFloat\<close> followed by the conversion
    \<open>int64(val)\<close>, the value of the float64 expression that computes the threshold in
    bytes, and the two strings that \<open>fmt.Sprintf\<close> renders for the throttled launch.
  \<^item> \<open>saveState\<close> writes the ledger to a file and only logs a failure; the file is not
    part of the model, and neither is logging.
\<close>

subsection \<open>Data\<close>

record TrafficState =
  PeriodStartTime :: int
  BytesUsed :: "64 word"
  IsThrottled :: bool

record Config =
  TrafficPeriodDays :: "64 word"
  ConduitArgs :: "string list"

record extern =
  ParseFloat :: "string \<Rightarrow> 64 word option"
    \<comment> \<open>\<open>strconv.ParseFloat(s, 64)\<close> then \<open>int64(val)\<close>; \<open>None\<close> when \<open>err != nil\<close>\<close>
  thresholdBytes :: "64 word"
    \<comment> \<open>\<open>int64(float64(limitBytes) * float64(cfg.BandwidthThresholdPercent) / 100.0)\<close>\<close>
  fmtMinConnections :: string
    \<comment> \<open>\<open>fmt.Sprintf("%d", s.cfg.MinConnections)\<close>\<close>
  fmtMinBandwidth :: string
    \<comment> \<open>\<open>fmt.Sprintf("%.0f", s.cfg.MinBandwidthMbps)\<close>\<close>

text \<open>
  The fields of \<open>Supervisor\<close> that the monitor and the main loop share. \<open>restartChan\<close>
  is a channel of \<open>struct{}\<close> values: its content is the number of buffered tokens, its
  capacity is fixed by \<open>NewSupervisor\<close>.
\<close>

record Supervisor =
  state :: TrafficState
  restartChan :: nat
  lastScrapeTotal :: "64 word"

definition restartChanCap :: nat where
  "restartChanCap = 1"

definition NewSupervisor :: "TrafficState \<Rightarrow> Supervisor" where
  "NewSupervisor st = \<lparr>state = st, restartChan = 0, lastScrapeTotal = 0\<rparr>"

subsection \<open>Restart requests\<close>

text \<open>
  \<open>triggerRestart\<close> is a \<open>select\<close> with a \<open>default\<close>: the send happens when the buffer has
  room and is skipped otherwise. \<open>recvRestart\<close> is the receive of the main loop's
  \<open>select\<close>: it is enabled only when a token is buffered (\<open>None\<close>: the case cannot be
  chosen).
\<close>

definition triggerRestart :: "Supervisor \<Rightarrow> Supervisor" where
  "triggerRestart s =
     (if restartChan s < restartChanCap then s\<lparr>restartChan := restartChan s + 1\<rparr> else s)"

definition recvRestart :: "Supervisor \<Rightarrow> Supervisor option" where
  "recvRestart s =
     (if 0 < restartChan s then Some (s\<lparr>restartChan := restartChan s - 1\<rparr>) else None)"

subsection \<open>Usage accounting\<close>

text \<open>
  The locked block of \<open>updateUsage\<close> (lines 468 to 495); the second component is
  \<open>needsRestart\<close>.
\<close>

definition usageDelta :: "64 word \<Rightarrow> 64 word \<Rightarrow> 64 word" where
  "usageDelta currentSessionTotal lastTotal =
     (let delta = currentSessionTotal - lastTotal
      in if delta <s 0 then currentSessionTotal else delta)"

definition updateUsageLocked :: "extern \<Rightarrow> 64 word \<Rightarrow> Supervisor \<Rightarrow> Supervisor \<times> bool" where
  "updateUsageLocked ext currentSessionTotal s =
     (let delta = usageDelta currentSessionTotal (lastScrapeTotal s);
          s1 = s\<lparr>lastScrapeTotal := currentSessionTotal\<rparr>;
          s2 = (if 0 <s delta
                then s1\<lparr>state := (state s1)\<lparr>BytesUsed := BytesUsed (state s1) + delta\<rparr>\<rparr>
                else s1)
      in if \<not> IsThrottled (state s2) \<and> thresholdBytes ext \<le>s BytesUsed (state s2)
         then (s2\<lparr>state := (state s2)\<lparr>IsThrottled := True\<rparr>\<rparr>, True)
         else (s2, False))"

definition updateUsage :: "extern \<Rightarrow> 64 word \<Rightarrow> Supervisor \<Rightarrow> Supervisor" where
  "updateUsage ext currentSessionTotal s =
     (case updateUsageLocked ext currentSessionTotal s of
        (s', needsRestart) \<Rightarrow> if needsRestart then triggerRestart s' else s')"

text \<open>A run of usage updates, one for each scraped total.\<close>

definition updateUsages :: "extern \<Rightarrow> 64 word list \<Rightarrow> Supervisor \<Rightarrow> Supervisor" where
  "updateUsages ext totals s = foldl (\<lambda>s' total. updateUsage ext total s') s totals"

text \<open>
  The usage delta in the words of the specification, on unbounded integers: the
  difference when it is not negative, the whole current total otherwise.
\<close>

definition specDelta :: "int \<Rightarrow> int \<Rightarrow> int" where
  "specDelta currentTotal lastTotal =
     (if 0 \<le> currentTotal - lastTotal then currentTotal - lastTotal else currentTotal)"

subsection \<open>Scraping the metrics endpoint\<close>

datatype scrapeError = GetFailed | BadStatus nat | ReadFailed

text \<open>
  What \<open>httpClient.Get\<close> and \<open>io.ReadAll\<close> give: no response, or a status code with
  the body (\<open>None\<close> when reading it fails).
\<close>

datatype httpResult = NoResponse | Response nat "string option"

text \<open>\<open>strings.Split(s, "\n")\<close>: always at least one piece.\<close>

fun splitLines :: "string \<Rightarrow> string list" where
  "splitLines [] = [[]]"
| "splitLines (c # cs) =
     (if c = CHR 0x0A then [] # splitLines cs
      else (case splitLines cs of [] \<Rightarrow> [[c]] | l # ls \<Rightarrow> (c # l) # ls))"

text \<open>
  \<open>strings.Fields\<close>. The library first looks whether every byte of the string is below
  \<open>0x80\<close>. If so it splits on the six white-space bytes of its table \<open>asciiSpace\<close>;
  otherwise it calls \<open>FieldsFunc(s, unicode.IsSpace)\<close>, which walks the string rune by
  rune. A rune is a code point, a \<open>nat\<close>.
\<close>

definition asciiSpace :: "char \<Rightarrow> bool" where
  "asciiSpace c =
     (let b = (of_char c :: nat)
      in b = 0x09 \<or> b = 0x0A \<or> b = 0x0B \<or> b = 0x0C \<or> b = 0x0D \<or> b = 0x20)"

text \<open>The fast path: the scan keeps the field it is in, as the library's loop does.\<close>

fun fieldsFrom :: "string \<Rightarrow> string \<Rightarrow> string list" where
  "fieldsFrom cur [] = (if cur = [] then [] else [cur])"
| "fieldsFrom cur (c # cs) =
     (if asciiSpace c then (if cur = [] then fieldsFrom [] cs else cur # fieldsFrom [] cs)
      else fieldsFrom (cur @ [c]) cs)"

text \<open>
  \<open>utf8.DecodeRuneInString\<close> on a string that is not empty: the rune and its width
  in bytes. A byte that does not begin a well-formed encoding is the rune \<open>RuneError\<close>
  of width 1. The first byte fixes the size and the range that the second byte must lie
  in; the later bytes must lie between \<open>0x80\<close> and \<open>0xBF\<close>.
\<close>

definition RuneError :: nat where
  "RuneError = 0xFFFD"

definition DecodeRuneInString :: "char \<Rightarrow> string \<Rightarrow> nat \<times> nat" where
  "DecodeRuneInString c cs =
     (let s0 = (of_char c :: nat)
      in if s0 < 0x80 then (s0, 1)
         else if s0 < 0xC2 \<or> 0xF5 \<le> s0 then (RuneError, 1)
         else
           (let sz = (if s0 < 0xE0 then 2 else if s0 < 0xF0 then 3 else (4::nat));
                lo = (if s0 = 0xE0 then 0xA0 else if s0 = 0xF0 then 0x90 else (0x80::nat));
                hi = (if s0 = 0xED then 0x9F else if s0 = 0xF4 then 0x8F else (0xBF::nat))
            in if Suc (length cs) < sz then (RuneError, 1)
               else
                 (let s1 = (of_char (cs ! 0) :: nat)
                  in if s1 < lo \<or> hi < s1 then (RuneError, 1)
                     else if sz \<le> 2 then ((s0 mod 32) * 64 + s1 mod 64, 2)
                     else
                       (let s2 = (of_char (cs ! 1) :: nat)
                        in if s2 < 0x80 \<or> 0xBF < s2 then (RuneError, 1)
                           else if sz \<le> 3
                           then ((s0 mod 16) * 4096 + (s1 mod 64) * 64 + s2 mod 64, 3)
                           else
                             (let s3 = (of_char (cs ! 2) :: nat)
                              in if s3 < 0x80 \<or> 0xBF < s3 then (RuneError, 1)
                                 else ((s0 mod 8) * 262144 + (s1 mod 64) * 4096
                                       + (s2 mod 64) * 64 + s3 mod 64, 4))))))"

text \<open>\<open>unicode.IsSpace\<close>: the Latin-1 cases, and above them the table \<open>White_Space\<close>.\<close>

definition IsSpace :: "nat \<Rightarrow> bool" where
  "IsSpace r =
     (if r \<le> 0xFF
      then (r = 0x09 \<or> r = 0x0A \<or> r = 0x0B \<or> r = 0x0C \<or> r = 0x0D \<or> r = 0x20
            \<or> r = 0x85 \<or> r = 0xA0)
      else (r = 0x1680 \<or> (0x2000 \<le> r \<and> r \<le> 0x200A) \<or> r = 0x2028 \<or> r = 0x2029
            \<or> r = 0x202F \<or> r = 0x205F \<or> r = 0x3000))"

text \<open>
  The loop of \<open>FieldsFunc\<close> with \<open>unicode.IsSpace\<close>. \<open>start\<close> is \<open>None\<close> outside a
  field and holds the bytes of the field since its start inside one. The rune at the
  head has at least one byte, so the rest is the tail without the rune's other bytes.
\<close>

fun FieldsFunc :: "string option \<Rightarrow> string \<Rightarrow> string list" where
  "FieldsFunc start [] = (case start of None \<Rightarrow> [] | Some fld \<Rightarrow> [fld])"
| "FieldsFunc start (c # cs) =
     (case DecodeRuneInString c cs of
        (r, width) \<Rightarrow>
          if IsSpace r
          then (case start of
                  None \<Rightarrow> FieldsFunc None (drop (width - 1) cs)
                | Some fld \<Rightarrow> fld # FieldsFunc None (drop (width - 1) cs))
          else FieldsFunc
                 (Some ((case start of None \<Rightarrow> [] | Some fld \<Rightarrow> fld) @ c # take (width - 1) cs))
                 (drop (width - 1) cs))"

definition Fields :: "string \<Rightarrow> string list" where
  "Fields s =
     (if list_ex (\<lambda>c. 0x80 \<le> (of_char c :: nat)) s then FieldsFunc None s
      else fieldsFrom [] s)"

text \<open>
  The block that the loop of \<open>scrapeBytesUsed\<close> repeats for each of the two counters:
  the value a line assigns to the counter called \<open>name\<close>, if it assigns one.
\<close>

definition counterValue :: "extern \<Rightarrow> string \<Rightarrow> string \<Rightarrow> 64 word option" where
  "counterValue ext name line =
     (if prefix (name @ '' '') line
      then (let parts = Fields line
            in if 2 \<le> length parts then ParseFloat ext (parts ! 1) else None)
      else None)"

definition scanLine :: "extern \<Rightarrow> 64 word \<times> 64 word \<Rightarrow> string \<Rightarrow> 64 word \<times> 64 word" where
  "scanLine ext acc line =
     (if prefix ''#'' line then acc
      else (case acc of (up, down) \<Rightarrow>
        (case counterValue ext ''conduit_bytes_uploaded'' line of
           Some val \<Rightarrow> val | None \<Rightarrow> up,
         case counterValue ext ''conduit_bytes_downloaded'' line of
           Some val \<Rightarrow> val | None \<Rightarrow> down)))"

definition parseMetrics :: "extern \<Rightarrow> string \<Rightarrow> 64 word \<times> 64 word" where
  "parseMetrics ext body = foldl (scanLine ext) (0, 0) (splitLines body)"

definition scrapeBytesUsed :: "extern \<Rightarrow> httpResult \<Rightarrow> scrapeError + 64 word" where
  "scrapeBytesUsed ext r =
     (case r of
        NoResponse \<Rightarrow> Inl GetFailed
      | Response code b \<Rightarrow>
          if code \<noteq> 200 then Inl (BadStatus code)
          else (case b of
                  None \<Rightarrow> Inl ReadFailed
                | Some body \<Rightarrow> (case parseMetrics ext body of (up, down) \<Rightarrow> Inr (up + down))))"

subsection \<open>The monitor tick\<close>

definition Hour :: "64 word" where
  "Hour = 3600000000000"

definition periodDuration :: "Config \<Rightarrow> 64 word" where
  "periodDuration cfg = TrafficPeriodDays cfg * 24 * Hour"

definition periodEnd :: "Config \<Rightarrow> Supervisor \<Rightarrow> int" where
  "periodEnd cfg s = PeriodStartTime (state s) + sint (periodDuration cfg)"

text \<open>
  Step 1 of \<open>checkTraffic\<close> (lines 423 to 451). The second component tells whether the
  function returned from inside the \<open>if\<close>.
\<close>

definition checkPeriod :: "Config \<Rightarrow> int \<Rightarrow> Supervisor \<Rightarrow> Supervisor \<times> bool" where
  "checkPeriod cfg now s =
     (if periodEnd cfg s < now
      then (let wasThrottled = IsThrottled (state s);
                s1 = s\<lparr>state := \<lparr>PeriodStartTime = now, BytesUsed = 0, IsThrottled = False\<rparr>,
                       lastScrapeTotal := 0\<rparr>
            in (if wasThrottled then triggerRestart s1 else s1, True))
      else (s, False))"

text \<open>The whole tick: step 1, then the scrape and the usage update (lines 453 to 461).\<close>

definition checkTraffic :: "extern \<Rightarrow> Config \<Rightarrow> int \<Rightarrow> httpResult \<Rightarrow> Supervisor \<Rightarrow> Supervisor" where
  "checkTraffic ext cfg now r s =
     (case checkPeriod cfg now s of
        (s1, returned) \<Rightarrow>
          if returned then s1
          else (case scrapeBytesUsed ext r of
                  Inl err \<Rightarrow> s1
                | Inr bytesUsed \<Rightarrow> updateUsage ext bytesUsed s1))"

subsection \<open>The monitor loop\<close>

text \<open>
  \<open>monitorLoop\<close> runs \<open>checkTraffic\<close> once and then at every tick. A tick is the time it
  reads and the answer of the metrics endpoint, should it ask.
\<close>

type_synonym tick = "int \<times> httpResult"

definition monitorLoop :: "extern \<Rightarrow> Config \<Rightarrow> tick list \<Rightarrow> Supervisor \<Rightarrow> Supervisor" where
  "monitorLoop ext cfg ticks s = foldl (\<lambda>s' (now, r). checkTraffic ext cfg now r s') s ticks"

subsection \<open>Launch arguments\<close>

definition looksLikeValue :: "extern \<Rightarrow> string \<Rightarrow> bool" where
  "looksLikeValue ext s = (if \<not> prefix ''-'' s then True else ParseFloat ext s \<noteq> None)"

text \<open>
  The loop of \<open>filterArgs\<close>: the arguments from index \<open>i\<close> on, \<open>skipNext\<close> and
  \<open>filtered\<close>. \<open>i+1 < len(args)\<close> says that an argument follows.
\<close>

fun filterLoop :: "extern \<Rightarrow> string \<Rightarrow> string \<Rightarrow> string list \<Rightarrow> bool \<Rightarrow> string list \<Rightarrow> string list" where
  "filterLoop ext longFlag shortFlag [] skipNext filtered = filtered"
| "filterLoop ext longFlag shortFlag (arg # rest) skipNext filtered =
     (if skipNext then filterLoop ext longFlag shortFlag rest False filtered
      else if arg = longFlag \<or> arg = shortFlag
      then filterLoop ext longFlag shortFlag rest
             (case rest of [] \<Rightarrow> False | nxt # _ \<Rightarrow> looksLikeValue ext nxt) filtered
      else if prefix (longFlag @ ''='') arg \<or> prefix (shortFlag @ ''='') arg
      then filterLoop ext longFlag shortFlag rest False filtered
      else filterLoop ext longFlag shortFlag rest False (filtered @ [arg]))"

definition filterArgs :: "extern \<Rightarrow> string list \<Rightarrow> string \<Rightarrow> string \<Rightarrow> string list" where
  "filterArgs ext args longFlag shortFlag = filterLoop ext longFlag shortFlag args False []"

text \<open>Lines 309 to 326 of \<open>Run\<close>: the arguments of the launch, from the throttle flag.\<close>

definition launchArgs :: "extern \<Rightarrow> Config \<Rightarrow> bool \<Rightarrow> string list" where
  "launchArgs ext cfg isThrottled =
     (let args = ConduitArgs cfg
      in if isThrottled
         then (let a1 = filterArgs ext args ''--max-clients'' ''-m'';
                   a2 = filterArgs ext a1 ''--bandwidth'' ''-b'';
                   a3 = a2 @ [''--max-clients'', fmtMinConnections ext]
               in a3 @ [''--bandwidth'', fmtMinBandwidth ext])
         else args)"


subsection \<open>Stopping the child\<close>

text \<open>
  What the supervisor does to the child and observes of it, in order. \<open>shutdownChild\<close>
  blocks in two places: the \<open>select\<close> between the exit notification and the timer, and
  the receive after the kill. The environment says how each ends.
\<close>

datatype signal = SIGTERM | SIGKILL

datatype action =
    Launch "string list"
  | Backoff nat
  | SendSignal signal
  | TimerFired nat
  | ExitReceived

record childEnv =
  childStarted :: bool
    \<comment> \<open>\<open>child != nil && child.Process != nil\<close>\<close>
  exitsInGrace :: bool
    \<comment> \<open>the \<open>select\<close> receives from \<open>waitErr\<close> before \<open>time.After\<close> fires\<close>
  exitsAfterKill :: bool
    \<comment> \<open>the receive that follows the kill gets its value\<close>

definition graceSeconds :: nat where
  "graceSeconds = 5"

text \<open>The trace of the call, and whether the call returns.\<close>

definition shutdownChild :: "childEnv \<Rightarrow> action list \<times> bool" where
  "shutdownChild c =
     (if \<not> childStarted c then ([], True)
      else if exitsInGrace c then ([SendSignal SIGTERM, ExitReceived], True)
      else if exitsAfterKill c
      then ([SendSignal SIGTERM, TimerFired graceSeconds, SendSignal SIGKILL, ExitReceived], True)
      else ([SendSignal SIGTERM, TimerFired graceSeconds, SendSignal SIGKILL], False))"

subsection \<open>The main loop\<close>

text \<open>
  One entry of the schedule per iteration of the loop of \<open>Run\<close>: the monitor ticks that
  complete before the iteration reads the throttle flag, what the first \<open>select\<close> finds,
  whether \<open>Start\<close> succeeds, the ticks that complete while the child runs, the case the
  second \<open>select\<close> takes, and how the child reacts to being stopped. A \<open>select\<close> cannot
  take the restart case while \<open>restartChan\<close> is empty: the loop then stays blocked.
\<close>

datatype pollResult = PollStop | PollSignal | PollNone

datatype selectCase = ChildExit bool | RestartRequested | SignalReceived | StopRequested

datatype runResult = ReturnedNil | ReturnedError | NotReturned

record iteration =
  ticksBefore :: "tick list"
  polled :: pollResult
  startOk :: bool
  ticksWhileRunning :: "tick list"
  chosen :: selectCase
  child :: childEnv

definition backoffSeconds :: nat where
  "backoffSeconds = 5"

fun Run :: "extern \<Rightarrow> Config \<Rightarrow> iteration list \<Rightarrow> Supervisor \<Rightarrow> action list \<times> runResult \<times> Supervisor" where
  "Run ext cfg [] s = ([], NotReturned, s)"
| "Run ext cfg (it # its) s =
     (let s1 = monitorLoop ext cfg (ticksBefore it) s
      in if polled it \<noteq> PollNone then ([], ReturnedNil, s1)
         else
           (let args = launchArgs ext cfg (IsThrottled (state s1))
            in if \<not> startOk it then ([], ReturnedError, s1)
               else
                 (let s2 = monitorLoop ext cfg (ticksWhileRunning it) s1;
                      stop = shutdownChild ((child it)\<lparr>childStarted := True\<rparr>)
                  in case chosen it of
                       ChildExit failed \<Rightarrow>
                         if failed
                         then (case Run ext cfg its s2 of
                                 (tr, res, s') \<Rightarrow> (Launch args # Backoff backoffSeconds # tr, res, s'))
                         else ([Launch args], ReturnedNil, s2)
                     | RestartRequested \<Rightarrow>
                         (case recvRestart s2 of
                            None \<Rightarrow> ([Launch args], NotReturned, s2)
                          | Some s3 \<Rightarrow>
                              if snd stop
                              then (case Run ext cfg its s3 of
                                      (tr, res, s') \<Rightarrow> (Launch args # fst stop @ tr, res, s'))
                              else (Launch args # fst stop, NotReturned, s3))
                     | SignalReceived \<Rightarrow>
                         (Launch args # fst stop, if snd stop then ReturnedNil else NotReturned, s2)
                     | StopRequested \<Rightarrow>
                         (Launch args # fst stop, if snd stop then ReturnedNil else NotReturned, s2))))"

text \<open>The launches of a trace, in order.\<close>

fun launches :: "action list \<Rightarrow> string list list" where
  "launches [] = []"
| "launches (Launch args # tr) = args # launches tr"
| "launches (_ # tr) = launches tr"

subsection \<open>Values for the examples\<close>

text \<open>
  An instance of the outside world for the examples: \<open>ParseFloat\<close> on the plain decimal
  numerals (which Go converts exactly below \<open>2 ^ 53\<close>), failing on every other string;
  the threshold of an 80 percent share of 100 GB, \<open>100 * 2 ^ 30 * 80 / 100\<close> bytes; the
  throttled limits of the default configuration.
\<close>

definition digitOf :: "char \<Rightarrow> nat option" where
  "digitOf c = (let n = (of_char c :: nat) in if 48 \<le> n \<and> n \<le> 57 then Some (n - 48) else None)"

fun decimalFrom :: "nat \<Rightarrow> string \<Rightarrow> nat option" where
  "decimalFrom acc [] = Some acc"
| "decimalFrom acc (c # cs) =
     (case digitOf c of None \<Rightarrow> None | Some d \<Rightarrow> decimalFrom (10 * acc + d) cs)"

definition parseDecimal :: "string \<Rightarrow> 64 word option" where
  "parseDecimal s = (if s = [] then None else map_option of_nat (decimalFrom 0 s))"

definition exampleExtern :: extern where
  "exampleExtern = \<lparr>ParseFloat = parseDecimal, thresholdBytes = 85899345920,
                     fmtMinConnections = ''10'', fmtMinBandwidth = ''10''\<rparr>"

definition exampleConfig :: Config where
  "exampleConfig = \<lparr>TrafficPeriodDays = 7,
                     ConduitArgs = [''start'', ''--max-clients'', ''200'', ''-b=40'', ''-v'']\<rparr>"

definition exampleSupervisor :: "int \<Rightarrow> 64 word \<Rightarrow> bool \<Rightarrow> 64 word \<Rightarrow> Supervisor" where
  "exampleSupervisor start used throttled lastTotal =
     \<lparr>state = \<lparr>PeriodStartTime = start, BytesUsed = used, IsThrottled = throttled\<rparr>,
      restartChan = 0, lastScrapeTotal = lastTotal\<rparr>"

text \<open>A metrics response with a comment line and the two counters.\<close>

definition metricsBody :: "string \<Rightarrow> string \<Rightarrow> string" where
  "metricsBody up down =
     ''# TYPE conduit_bytes_uploaded gauge'' @ [CHR 0x0A] @
     ''conduit_bytes_uploaded '' @ up @ [CHR 0x0A] @
     ''conduit_bytes_downloaded '' @ down @ [CHR 0x0A]"

text \<open>
  An iteration of the main loop in which the launch succeeds, no stop is pending and the
  child, asked to stop, exits within the grace period.
\<close>

definition exampleIteration :: "tick list \<Rightarrow> selectCase \<Rightarrow> iteration" where
  "exampleIteration before c =
     \<lparr>ticksBefore = before, polled = PollNone, startOk = True, ticksWhileRunning = [],
      chosen = c, child = \<lparr>childStarted = True, exitsInGrace = True, exitsAfterKill = True\<rparr>\<rparr>"

text \<open>A response in which the value of the upload counter is not a number.\<close>

definition malformedBody :: string where
  "malformedBody = metricsBody ''1,234'' ''2100''"


definition repeatedBody :: string where
  "repeatedBody =
     ''conduit_bytes_uploaded 7'' @ [CHR 0x0A] @ ''conduit_bytes_uploaded abc'' @ [CHR 0x0A]"

text \<open>A child that ignores the termination signal and dies when killed.\<close>

definition stubbornChild :: childEnv where
  "stubbornChild = \<lparr>childStarted = True, exitsInGrace = False, exitsAfterKill = True\<rparr>"


section \<open>Properties\<close>

subsection \<open>Signed 64-bit arithmetic without overflow\<close>

lemma sint_diff_exact:
  fixes a b :: "64 word"
  assumes "- (2 ^ 63) \<le> sint a - sint b" "sint a - sint b < 2 ^ 63"
  shows "sint (a - b) = sint a - sint b"
  using assms by (simp add: sint_word_diff signed_take_bit_int_eq_self)

lemma sint_add_exact:
  fixes a b :: "64 word"
  assumes "- (2 ^ 63) \<le> sint a + sint b" "sint a + sint b < 2 ^ 63"
  shows "sint (a + b) = sint a + sint b"
  using assms by (simp add: sint_word_add signed_take_bit_int_eq_self)

lemma sint_bounds64:
  fixes a :: "64 word"
  shows "- (2 ^ 63) \<le> sint a" "sint a < 2 ^ 63"
  using sint_ge [of a] sint_lt [of a] by simp_all

subsection \<open>Facts about the example values\<close>

lemma examplePeriod: "sint (periodDuration exampleConfig) = 604800000000000"
  by (simp add: periodDuration_def exampleConfig_def Hour_def)

lemma exampleThreshold: "thresholdBytes exampleExtern = 85899345920"
  by (simp add: exampleExtern_def)

lemma exampleParseFloat: "ParseFloat exampleExtern = parseDecimal"
  by (simp add: exampleExtern_def)

lemma parseMetrics_example:
  "parseMetrics exampleExtern (metricsBody ''3000'' ''2100'') = (3000, 2100)"
  by (simp add: parseMetrics_def metricsBody_def scanLine_def counterValue_def Fields_def
      asciiSpace_def exampleParseFloat parseDecimal_def digitOf_def)

subsection \<open>The usage delta\<close>

lemma usageDelta_int:
  fixes cur prev :: "64 word"
  assumes "- (2 ^ 63) \<le> sint cur - sint prev" "sint cur - sint prev < 2 ^ 63"
  shows "sint (usageDelta cur prev) = specDelta (sint cur) (sint prev)"
proof -
  have d: "sint (cur - prev) = sint cur - sint prev"
    using assms by (rule sint_diff_exact)
  show ?thesis
    by (simp add: usageDelta_def specDelta_def Let_def word_sless_alt d)
qed

lemma nonneg_totals_fit:
  fixes cur prev :: "64 word"
  assumes "0 \<le> sint cur" "0 \<le> sint prev"
  shows "- (2 ^ 63) \<le> sint cur - sint prev \<and> sint cur - sint prev < 2 ^ 63
         \<and> 0 \<le> specDelta (sint cur) (sint prev)"
  using assms sint_bounds64 [of cur] sint_bounds64 [of prev]
  by (simp add: specDelta_def)

lemma usageDelta_nonneg:
  fixes cur prev :: "64 word"
  assumes "0 \<le> sint cur" "0 \<le> sint prev"
  shows "sint (usageDelta cur prev) =
           (if 0 \<le> sint cur - sint prev then sint cur - sint prev else sint cur)"
  using usageDelta_int [of cur prev] nonneg_totals_fit [OF assms]
  by (simp add: specDelta_def)

lemma updateUsage_unfold:
  "updateUsage ext cur s =
     (if snd (updateUsageLocked ext cur s) then triggerRestart (fst (updateUsageLocked ext cur s))
      else fst (updateUsageLocked ext cur s))"
  by (cases "updateUsageLocked ext cur s") (simp add: updateUsage_def)

lemma updateUsage_state:
  "state (updateUsage ext cur s) = state (fst (updateUsageLocked ext cur s))
   \<and> lastScrapeTotal (updateUsage ext cur s) = cur"
  by (simp add: updateUsage_unfold triggerRestart_def updateUsageLocked_def Let_def)

lemma updateUsage_word:
  "BytesUsed (state (updateUsage ext cur s))
     = BytesUsed (state s)
       + (if 0 <s usageDelta cur (lastScrapeTotal s) then usageDelta cur (lastScrapeTotal s) else 0)"
  by (simp add: updateUsage_state updateUsageLocked_def Let_def)

lemma increment_nonneg:
  fixes d :: "64 word"
  shows "0 \<le> sint (if 0 <s d then d else 0)"
  by (simp add: word_sless_alt)

lemma updateUsage_int:
  assumes "- (2 ^ 63) \<le> sint cur - sint (lastScrapeTotal s)"
    and "sint cur - sint (lastScrapeTotal s) < 2 ^ 63"
    and "sint (BytesUsed (state s)) + max 0 (specDelta (sint cur) (sint (lastScrapeTotal s))) < 2 ^ 63"
  shows "sint (BytesUsed (state (updateUsage ext cur s)))
           = sint (BytesUsed (state s)) + max 0 (specDelta (sint cur) (sint (lastScrapeTotal s)))"
proof -
  let ?d = "usageDelta cur (lastScrapeTotal s)"
  have dv: "sint ?d = specDelta (sint cur) (sint (lastScrapeTotal s))"
    using assms(1,2) by (rule usageDelta_int)
  show ?thesis
  proof (cases "0 <s ?d")
    case True
    then have pos: "0 < sint ?d" by (simp add: word_sless_alt)
    have "sint (BytesUsed (state s) + ?d) = sint (BytesUsed (state s)) + sint ?d"
      using assms(3) pos dv sint_bounds64(1) [of "BytesUsed (state s)"]
      by (intro sint_add_exact) linarith+
    with True pos dv show ?thesis by (simp add: updateUsage_word)
  next
    case False
    then have "sint ?d \<le> 0" by (simp add: word_sless_alt)
    with False dv show ?thesis by (simp add: updateUsage_word)
  qed
qed

lemma checkTraffic_success:
  "\<not> periodEnd cfg s < now \<Longrightarrow> scrapeBytesUsed ext r = Inr cur \<Longrightarrow>
     checkTraffic ext cfg now r s = updateUsage ext cur s"
  by (simp add: checkTraffic_def checkPeriod_def)

text \<open>
  C3. A successful scrape within the period runs \<open>updateUsage\<close> on the scraped total.
  Afterwards \<open>lastScrapeTotal\<close> is that total. The usage delta is the difference to the
  last total when that is not negative and the whole scraped total when it is negative,
  and \<open>BytesUsed\<close> has grown by the delta when the delta is positive and is unchanged
  otherwise: the amount added is never negative. This holds for all values in
  \<open>int64\<close> arithmetic; read as integers, the delta is the one of the specification
  whenever the difference fits in an \<open>int64\<close>, as it does for byte counters, which are
  not negative, and the ledger grows by exactly that amount whenever the sum fits.
\<close>

theorem delta_accounting:
  "lastScrapeTotal (updateUsage ext cur s) = cur
   \<and> usageDelta cur (lastScrapeTotal s)
       = (if cur - lastScrapeTotal s <s 0 then cur else cur - lastScrapeTotal s)
   \<and> BytesUsed (state (updateUsage ext cur s))
       = BytesUsed (state s)
         + (if 0 <s usageDelta cur (lastScrapeTotal s) then usageDelta cur (lastScrapeTotal s) else 0)
   \<and> 0 \<le> sint (if 0 <s usageDelta cur (lastScrapeTotal s)
                then usageDelta cur (lastScrapeTotal s) else 0)
   \<and> (- (2 ^ 63) \<le> sint cur - sint (lastScrapeTotal s)
        \<and> sint cur - sint (lastScrapeTotal s) < 2 ^ 63 \<longrightarrow>
        sint (usageDelta cur (lastScrapeTotal s)) = specDelta (sint cur) (sint (lastScrapeTotal s)))
   \<and> (- (2 ^ 63) \<le> sint cur - sint (lastScrapeTotal s)
        \<and> sint cur - sint (lastScrapeTotal s) < 2 ^ 63
        \<and> sint (BytesUsed (state s)) + max 0 (specDelta (sint cur) (sint (lastScrapeTotal s)))
            < 2 ^ 63 \<longrightarrow>
        sint (BytesUsed (state (updateUsage ext cur s)))
          = sint (BytesUsed (state s)) + max 0 (specDelta (sint cur) (sint (lastScrapeTotal s))))
   \<and> (0 \<le> sint cur \<and> 0 \<le> sint (lastScrapeTotal s) \<longrightarrow>
        - (2 ^ 63) \<le> sint cur - sint (lastScrapeTotal s)
        \<and> sint cur - sint (lastScrapeTotal s) < 2 ^ 63
        \<and> 0 \<le> specDelta (sint cur) (sint (lastScrapeTotal s)))
   \<and> (\<not> periodEnd cfg s < now \<and> scrapeBytesUsed ext r = Inr cur \<longrightarrow>
        checkTraffic ext cfg now r s = updateUsage ext cur s)"
proof -
  have p1: "lastScrapeTotal (updateUsage ext cur s) = cur"
    by (simp add: updateUsage_state)
  have p2: "usageDelta cur (lastScrapeTotal s)
       = (if cur - lastScrapeTotal s <s 0 then cur else cur - lastScrapeTotal s)"
    by (simp add: usageDelta_def Let_def)
  note p3 = updateUsage_word [of ext cur s]
  note p4 = increment_nonneg [of "usageDelta cur (lastScrapeTotal s)"]
  have p5: "- (2 ^ 63) \<le> sint cur - sint (lastScrapeTotal s)
        \<and> sint cur - sint (lastScrapeTotal s) < 2 ^ 63 \<longrightarrow>
        sint (usageDelta cur (lastScrapeTotal s)) = specDelta (sint cur) (sint (lastScrapeTotal s))"
    using usageDelta_int [of cur "lastScrapeTotal s"] by blast
  have p6: "- (2 ^ 63) \<le> sint cur - sint (lastScrapeTotal s)
        \<and> sint cur - sint (lastScrapeTotal s) < 2 ^ 63
        \<and> sint (BytesUsed (state s)) + max 0 (specDelta (sint cur) (sint (lastScrapeTotal s)))
            < 2 ^ 63 \<longrightarrow>
        sint (BytesUsed (state (updateUsage ext cur s)))
          = sint (BytesUsed (state s)) + max 0 (specDelta (sint cur) (sint (lastScrapeTotal s)))"
    using updateUsage_int [of cur s ext] by blast
  have p7: "0 \<le> sint cur \<and> 0 \<le> sint (lastScrapeTotal s) \<longrightarrow>
        - (2 ^ 63) \<le> sint cur - sint (lastScrapeTotal s)
        \<and> sint cur - sint (lastScrapeTotal s) < 2 ^ 63
        \<and> 0 \<le> specDelta (sint cur) (sint (lastScrapeTotal s))"
    using nonneg_totals_fit [of cur "lastScrapeTotal s"] by blast
  have p8: "\<not> periodEnd cfg s < now \<and> scrapeBytesUsed ext r = Inr cur \<longrightarrow>
        checkTraffic ext cfg now r s = updateUsage ext cur s"
    using checkTraffic_success by blast
  from p1 p2 p3 p4 p5 p6 p7 p8 show ?thesis by blast
qed

text \<open>
  The example of the specification: the last total is 5,000,000 and the scrape returns
  4,000,000 (3,000,000 up and 1,000,000 down); the ledger grows by 4,000,000, from
  7,000,000 to 11,000,000, and the last total becomes 4,000,000.
\<close>

theorem delta_accounting_witness:
  "0 \<le> sint (4000000 :: 64 word)
   \<and> 0 \<le> sint (lastScrapeTotal (exampleSupervisor 0 7000000 False 5000000))
   \<and> specDelta (sint (4000000 :: 64 word))
        (sint (lastScrapeTotal (exampleSupervisor 0 7000000 False 5000000))) = 4000000
   \<and> sint (BytesUsed (state (updateUsage exampleExtern 4000000
             (exampleSupervisor 0 7000000 False 5000000)))) = 11000000
   \<and> lastScrapeTotal (updateUsage exampleExtern 4000000
             (exampleSupervisor 0 7000000 False 5000000)) = 4000000
   \<and> \<not> periodEnd exampleConfig (exampleSupervisor 0 7000000 False 5000000) < 10
   \<and> scrapeBytesUsed exampleExtern (Response 200 (Some (metricsBody ''3000000'' ''1000000'')))
       = Inr 4000000
   \<and> sint (BytesUsed (state (checkTraffic exampleExtern exampleConfig 10
             (Response 200 (Some (metricsBody ''3000000'' ''1000000'')))
             (exampleSupervisor 0 7000000 False 5000000)))) = 11000000"
proof -
  let ?s = "exampleSupervisor 0 7000000 False 5000000"
  let ?r = "Response 200 (Some (metricsBody ''3000000'' ''1000000''))"
  note t = delta_accounting [where cur = 4000000 and ext = exampleExtern and s = ?s
      and cfg = exampleConfig and now = 10 and r = ?r]
  have v: "sint (4000000 :: 64 word) = 4000000" "sint (lastScrapeTotal ?s) = 5000000"
    "sint (BytesUsed (state ?s)) = 7000000"
    by (simp_all add: exampleSupervisor_def)
  have h: "0 \<le> sint (4000000 :: 64 word)" "0 \<le> sint (lastScrapeTotal ?s)"
    by (simp_all add: v)
  have sd: "specDelta (sint (4000000 :: 64 word)) (sint (lastScrapeTotal ?s)) = 4000000"
    by (simp add: v specDelta_def)
  from t h have fit: "- (2 ^ 63) \<le> sint (4000000 :: 64 word) - sint (lastScrapeTotal ?s)
      \<and> sint (4000000 :: 64 word) - sint (lastScrapeTotal ?s) < 2 ^ 63"
    by blast
  have sum: "sint (BytesUsed (state ?s))
      + max 0 (specDelta (sint (4000000 :: 64 word)) (sint (lastScrapeTotal ?s))) < 2 ^ 63"
    by (simp add: v specDelta_def)
  from t fit sum have "sint (BytesUsed (state (updateUsage exampleExtern 4000000 ?s)))
      = sint (BytesUsed (state ?s))
        + max 0 (specDelta (sint (4000000 :: 64 word)) (sint (lastScrapeTotal ?s)))"
    by blast
  then have a: "sint (BytesUsed (state (updateUsage exampleExtern 4000000 ?s))) = 11000000"
    by (simp add: v specDelta_def)
  from t have b: "lastScrapeTotal (updateUsage exampleExtern 4000000 ?s) = 4000000"
    by blast
  have n: "\<not> periodEnd exampleConfig ?s < 10"
    by (simp add: periodEnd_def examplePeriod exampleSupervisor_def)
  have pm: "parseMetrics exampleExtern (metricsBody ''3000000'' ''1000000'') = (3000000, 1000000)"
    by (simp add: parseMetrics_def metricsBody_def scanLine_def counterValue_def Fields_def
        asciiSpace_def exampleParseFloat parseDecimal_def digitOf_def)
  have sc: "scrapeBytesUsed exampleExtern ?r = Inr 4000000"
    by (simp add: scrapeBytesUsed_def pm)
  from t n sc have "checkTraffic exampleExtern exampleConfig 10 ?r ?s
      = updateUsage exampleExtern 4000000 ?s"
    by blast
  with a have c: "sint (BytesUsed (state (checkTraffic exampleExtern exampleConfig 10 ?r ?s)))
      = 11000000"
    by simp
  from h sd a b n sc c show ?thesis by blast
qed

subsection \<open>Period rollover\<close>

lemma periodDuration_days:
  assumes "0 \<le> sint (TrafficPeriodDays cfg)" "sint (TrafficPeriodDays cfg) \<le> 106751"
  shows "sint (periodDuration cfg) = sint (TrafficPeriodDays cfg) * 86400000000000"
proof -
  let ?d = "TrafficPeriodDays cfg"
  have e: "periodDuration cfg = ?d * 86400000000000"
    by (simp add: periodDuration_def Hour_def)
  have k: "sint (86400000000000 :: 64 word) = 86400000000000" by simp
  have lo: "- (2 ^ 63) \<le> sint ?d * 86400000000000"
    using assms(1) by simp
  have "sint ?d * 86400000000000 \<le> 106751 * 86400000000000"
    using assms(2) by simp
  then have hi: "sint ?d * 86400000000000 < 2 ^ 63" by simp
  show ?thesis
    unfolding e using lo hi
    by (simp add: sint_word_mult k signed_take_bit_int_eq_self)
qed

text \<open>
  C2 (amended). The rollover check resets the ledger (\<open>BytesUsed\<close> 0, \<open>IsThrottled\<close>
  false, \<open>PeriodStartTime\<close> the current time) if and only if the current time is
  strictly after the period start plus the period length, as \<open>now.After(periodEnd)\<close>
  decides; at that instant itself and before it the check leaves the supervisor's state
  as it is. The period length is the \<open>time.Duration\<close> of the configured days, which
  is their number times 86,400,000,000,000 nanoseconds for up to 106,751 days.
\<close>

theorem checkPeriod_resets_iff_after:
  "(snd (checkPeriod cfg now s) \<longleftrightarrow> periodEnd cfg s < now)
   \<and> (periodEnd cfg s < now \<longrightarrow>
        state (fst (checkPeriod cfg now s))
          = \<lparr>PeriodStartTime = now, BytesUsed = 0, IsThrottled = False\<rparr>)
   \<and> (now \<le> periodEnd cfg s \<longrightarrow> checkPeriod cfg now s = (s, False))
   \<and> (0 \<le> sint (TrafficPeriodDays cfg) \<and> sint (TrafficPeriodDays cfg) \<le> 106751 \<longrightarrow>
        periodEnd cfg s
          = PeriodStartTime (state s) + sint (TrafficPeriodDays cfg) * 86400000000000)"
  using periodDuration_days [of cfg]
  by (simp add: checkPeriod_def Let_def triggerRestart_def periodEnd_def)

text \<open>A period of seven days that started at 0: one nanosecond after its end, and at its end.\<close>

theorem checkPeriod_resets_iff_after_witness:
  "periodEnd exampleConfig (exampleSupervisor 0 5000 True 5000) < 604800000000001
   \<and> state (fst (checkPeriod exampleConfig 604800000000001 (exampleSupervisor 0 5000 True 5000)))
       = \<lparr>PeriodStartTime = 604800000000001, BytesUsed = 0, IsThrottled = False\<rparr>
   \<and> 604800000000000 \<le> periodEnd exampleConfig (exampleSupervisor 0 5000 True 5000)
   \<and> checkPeriod exampleConfig 604800000000000 (exampleSupervisor 0 5000 True 5000)
       = (exampleSupervisor 0 5000 True 5000, False)
   \<and> 0 \<le> sint (TrafficPeriodDays exampleConfig) \<and> sint (TrafficPeriodDays exampleConfig) \<le> 106751
   \<and> periodEnd exampleConfig (exampleSupervisor 0 5000 True 5000) = 0 + 7 * 86400000000000"
proof -
  have d: "0 \<le> sint (TrafficPeriodDays exampleConfig)
      \<and> sint (TrafficPeriodDays exampleConfig) \<le> 106751"
    by (simp add: exampleConfig_def)
  note t1 = checkPeriod_resets_iff_after [of exampleConfig 604800000000001
        "exampleSupervisor 0 5000 True 5000"]
  note t2 = checkPeriod_resets_iff_after [of exampleConfig 604800000000000
        "exampleSupervisor 0 5000 True 5000"]
  from t1 d have "periodEnd exampleConfig (exampleSupervisor 0 5000 True 5000)
      = PeriodStartTime (state (exampleSupervisor 0 5000 True 5000))
        + sint (TrafficPeriodDays exampleConfig) * 86400000000000"
    by blast
  then have e: "periodEnd exampleConfig (exampleSupervisor 0 5000 True 5000) = 604800000000000"
    by (simp add: exampleSupervisor_def exampleConfig_def)
  show ?thesis
    using t1 t2 d by (simp add: e)
qed

text \<open>
  The specification asks for the reset at \<open>now = periodStart + periodLength\<close>. There
  the check changes nothing: the ledger keeps its 5000 bytes, its flag and its start.
\<close>

theorem rollover_at_period_end_counterexample:
  "PeriodStartTime (state (exampleSupervisor 0 5000 True 5000)) + sint (periodDuration exampleConfig)
     \<le> 604800000000000
   \<and> BytesUsed (state (fst (checkPeriod exampleConfig 604800000000000
          (exampleSupervisor 0 5000 True 5000)))) = 5000
   \<and> IsThrottled (state (fst (checkPeriod exampleConfig 604800000000000
          (exampleSupervisor 0 5000 True 5000))))
   \<and> PeriodStartTime (state (fst (checkPeriod exampleConfig 604800000000000
          (exampleSupervisor 0 5000 True 5000)))) = 0"
  by (simp add: checkPeriod_def periodEnd_def exampleSupervisor_def examplePeriod)

subsection \<open>Crossing the threshold\<close>

lemma updateUsageLocked_throttled:
  "IsThrottled (state s) \<Longrightarrow>
     IsThrottled (state (fst (updateUsageLocked ext cur s))) \<and> \<not> snd (updateUsageLocked ext cur s)
     \<and> restartChan (fst (updateUsageLocked ext cur s)) = restartChan s"
  by (simp add: updateUsageLocked_def Let_def)

lemma updateUsage_throttled:
  "IsThrottled (state s) \<Longrightarrow>
     IsThrottled (state (updateUsage ext cur s)) \<and> restartChan (updateUsage ext cur s) = restartChan s"
  using updateUsageLocked_throttled [of s ext cur] by (simp add: updateUsage_unfold)

lemma updateUsages_throttled:
  "IsThrottled (state s) \<Longrightarrow>
     IsThrottled (state (updateUsages ext totals s))
     \<and> restartChan (updateUsages ext totals s) = restartChan s"
proof (induction totals arbitrary: s)
  case Nil
  then show ?case by (simp add: updateUsages_def)
next
  case (Cons t ts)
  from Cons.prems have a: "IsThrottled (state (updateUsage ext t s))"
    and b: "restartChan (updateUsage ext t s) = restartChan s"
    using updateUsage_throttled by blast+
  have "updateUsages ext (t # ts) s = updateUsages ext ts (updateUsage ext t s)"
    by (simp add: updateUsages_def)
  with Cons.IH [OF a] b show ?case by simp
qed

text \<open>
  C4. A usage update asks for a restart (\<open>needsRestart\<close>) exactly when the flag is not
  yet set and \<open>BytesUsed\<close>, after the delta, has reached the threshold; the flag
  afterwards is set exactly when it was set before or that holds; the update sends a
  restart request exactly when it flips the flag; and once the flag is set, every later
  run of updates keeps it set and sends no restart request.
\<close>

theorem throttle_flips_once:
  "(snd (updateUsageLocked ext cur s) \<longleftrightarrow>
      \<not> IsThrottled (state s)
      \<and> thresholdBytes ext \<le>s BytesUsed (state (fst (updateUsageLocked ext cur s))))
   \<and> (IsThrottled (state (fst (updateUsageLocked ext cur s))) \<longleftrightarrow>
      IsThrottled (state s)
      \<or> thresholdBytes ext \<le>s BytesUsed (state (fst (updateUsageLocked ext cur s))))
   \<and> (snd (updateUsageLocked ext cur s) \<longrightarrow>
        updateUsage ext cur s = triggerRestart (fst (updateUsageLocked ext cur s)))
   \<and> (\<not> snd (updateUsageLocked ext cur s) \<longrightarrow>
        updateUsage ext cur s = fst (updateUsageLocked ext cur s))
   \<and> (IsThrottled (state s) \<longrightarrow>
        IsThrottled (state (updateUsages ext totals s))
        \<and> restartChan (updateUsages ext totals s) = restartChan s)"
proof -
  have p1: "snd (updateUsageLocked ext cur s) \<longleftrightarrow>
      \<not> IsThrottled (state s)
      \<and> thresholdBytes ext \<le>s BytesUsed (state (fst (updateUsageLocked ext cur s)))"
    by (simp add: updateUsageLocked_def Let_def)
  have p2: "IsThrottled (state (fst (updateUsageLocked ext cur s))) \<longleftrightarrow>
      IsThrottled (state s)
      \<or> thresholdBytes ext \<le>s BytesUsed (state (fst (updateUsageLocked ext cur s)))"
    by (simp add: updateUsageLocked_def Let_def)
  have p3: "snd (updateUsageLocked ext cur s) \<longrightarrow>
        updateUsage ext cur s = triggerRestart (fst (updateUsageLocked ext cur s))"
    by (simp add: updateUsage_unfold)
  have p4: "\<not> snd (updateUsageLocked ext cur s) \<longrightarrow>
        updateUsage ext cur s = fst (updateUsageLocked ext cur s)"
    by (simp add: updateUsage_unfold)
  have p5: "IsThrottled (state s) \<longrightarrow>
        IsThrottled (state (updateUsages ext totals s))
        \<and> restartChan (updateUsages ext totals s) = restartChan s"
    using updateUsages_throttled by blast
  show ?thesis using p1 p2 p3 p4 p5 by blast
qed

text \<open>
  The example of the specification: a limit of 100 GB and a threshold of 80 percent,
  85,899,345,920 bytes. The ledger holds 79.9 GB (85,791,971,737 bytes) and the scrape
  brings 0.2 GB (214,748,364 bytes) more: the flag flips and one restart is requested.
  The next updates neither flip it nor request a restart.
\<close>

theorem throttle_flips_once_witness:
  "\<not> IsThrottled (state (exampleSupervisor 0 85791971737 False 1000))
   \<and> updateUsageLocked exampleExtern 214749364 (exampleSupervisor 0 85791971737 False 1000)
       = (exampleSupervisor 0 86006720101 True 214749364, True)
   \<and> restartChan (updateUsage exampleExtern 214749364 (exampleSupervisor 0 85791971737 False 1000)) = 1
   \<and> IsThrottled (state (exampleSupervisor 0 86006720101 True 214749364))
   \<and> \<not> snd (updateUsageLocked exampleExtern 214749964 (exampleSupervisor 0 86006720101 True 214749364))
   \<and> restartChan (updateUsages exampleExtern [214749964, 214750964]
                     (exampleSupervisor 0 86006720101 True 214749364)) = 0"
proof -
  have a: "updateUsageLocked exampleExtern 214749364 (exampleSupervisor 0 85791971737 False 1000)
       = (exampleSupervisor 0 86006720101 True 214749364, True)"
    by (simp add: updateUsageLocked_def usageDelta_def Let_def exampleSupervisor_def
        exampleThreshold word_sless_alt word_sle_eq)
  note t1 = throttle_flips_once [of exampleExtern 214749364
      "exampleSupervisor 0 85791971737 False 1000" "[]"]
  note t2 = throttle_flips_once [of exampleExtern 214749964
      "exampleSupervisor 0 86006720101 True 214749364" "[214749964, 214750964]"]
  have n: "\<not> IsThrottled (state (exampleSupervisor 0 85791971737 False 1000))"
    and y: "IsThrottled (state (exampleSupervisor 0 86006720101 True 214749364))"
    and z: "restartChan (exampleSupervisor 0 86006720101 True 214749364) = 0"
    by (simp_all add: exampleSupervisor_def)
  from t1 a have "updateUsage exampleExtern 214749364 (exampleSupervisor 0 85791971737 False 1000)
      = triggerRestart (exampleSupervisor 0 86006720101 True 214749364)"
    by simp
  then have b: "restartChan (updateUsage exampleExtern 214749364
      (exampleSupervisor 0 85791971737 False 1000)) = 1"
    by (simp add: triggerRestart_def restartChanCap_def exampleSupervisor_def)
  from t2 y have c: "\<not> snd (updateUsageLocked exampleExtern 214749964
      (exampleSupervisor 0 86006720101 True 214749364))"
    by blast
  from t2 y z have d: "restartChan (updateUsages exampleExtern [214749964, 214750964]
      (exampleSupervisor 0 86006720101 True 214749364)) = 0"
    by simp
  from n a b y c d show ?thesis by blast
qed

subsection \<open>Rollover while the worker keeps running\<close>

text \<open>
  C1. After a rollover in normal mode the next scrape adds the worker's whole
  cumulative total to the fresh ledger, not only the bytes transferred since the scrape
  before. The worker has reported 5000 bytes in total and all of them are in the ledger.
  The period ends; the supervisor is not throttled, so the first tick resets the ledger
  and \<open>lastScrapeTotal\<close> and requests no restart, and the worker's counters go on. Ten
  seconds later the worker reports 5100 bytes: the fresh ledger holds 5100 bytes, the
  5000 of the period before among them, where 100 bytes were transferred since the last
  scrape.
\<close>

theorem rollover_recounts_cumulative_total:
  "monitorLoop exampleExtern exampleConfig
     [(604800000000001, NoResponse),
      (604810000000001, Response 200 (Some (metricsBody ''3000'' ''2100'')))]
     (exampleSupervisor 0 5000 False 5000)
   = exampleSupervisor 604800000000001 5100 False 5100"
  by (simp add: monitorLoop_def checkTraffic_def checkPeriod_def periodEnd_def exampleSupervisor_def
      scrapeBytesUsed_def parseMetrics_example updateUsage_def updateUsageLocked_def
      usageDelta_def Let_def word_sless_alt word_sle_eq exampleThreshold examplePeriod)

subsection \<open>The restart channel\<close>

declare Run.simps(2) [simp del]

lemma triggerRestart_le: "restartChan s \<le> restartChanCap \<Longrightarrow> restartChan (triggerRestart s) \<le> restartChanCap"
  by (simp add: triggerRestart_def restartChanCap_def)

lemma triggerRestart_full: "restartChan s = restartChanCap \<Longrightarrow> triggerRestart s = s"
  by (simp add: triggerRestart_def)

lemma triggerRestart_twice: "triggerRestart (triggerRestart s) = triggerRestart s"
  by (simp add: triggerRestart_def restartChanCap_def)

lemma recv_after_two:
  "restartChan s = 0 \<Longrightarrow> recvRestart (triggerRestart (triggerRestart s)) = Some s \<and> recvRestart s = None"
  by (simp add: triggerRestart_def recvRestart_def restartChanCap_def)

lemma updateUsage_chan_le:
  "restartChan s \<le> restartChanCap \<Longrightarrow> restartChan (updateUsage ext cur s) \<le> restartChanCap"
proof -
  assume a: "restartChan s \<le> restartChanCap"
  have r: "restartChan (fst (updateUsageLocked ext cur s)) = restartChan s"
    by (simp add: updateUsageLocked_def Let_def)
  show ?thesis
    using a triggerRestart_le [of "fst (updateUsageLocked ext cur s)"]
    by (simp add: updateUsage_unfold r)
qed

lemma checkTraffic_chan_le:
  "restartChan s \<le> restartChanCap \<Longrightarrow> restartChan (checkTraffic ext cfg now r s) \<le> restartChanCap"
proof -
  assume a: "restartChan s \<le> restartChanCap"
  have p: "restartChan (fst (checkPeriod cfg now s)) \<le> restartChanCap"
    using a by (simp add: checkPeriod_def Let_def triggerRestart_def restartChanCap_def)
  show ?thesis
  proof (cases "snd (checkPeriod cfg now s)")
    case True
    then show ?thesis using p
      by (cases "checkPeriod cfg now s") (simp add: checkTraffic_def)
  next
    case False
    then have e: "checkPeriod cfg now s = (s, False)"
      by (simp add: checkPeriod_def Let_def split: if_splits)
    show ?thesis
      using a updateUsage_chan_le [OF a]
      by (simp add: checkTraffic_def e split: sum.splits)
  qed
qed

lemma monitorLoop_chan_le:
  "restartChan s \<le> restartChanCap \<Longrightarrow> restartChan (monitorLoop ext cfg ticks s) \<le> restartChanCap"
proof (induction ticks arbitrary: s)
  case Nil
  then show ?case by (simp add: monitorLoop_def)
next
  case (Cons t ts)
  obtain now r where t: "t = (now, r)" by (cases t)
  have "monitorLoop ext cfg (t # ts) s = monitorLoop ext cfg ts (checkTraffic ext cfg now r s)"
    by (simp add: monitorLoop_def t)
  with Cons.IH [OF checkTraffic_chan_le [OF Cons.prems]] show ?case by simp
qed

lemma monitorLoop_Nil [simp]: "monitorLoop ext cfg [] s = s"
  by (simp add: monitorLoop_def)

lemma shutdownChild_returns:
  "exitsInGrace c \<or> exitsAfterKill c \<Longrightarrow> snd (shutdownChild (c\<lparr>childStarted := True\<rparr>))"
  by (auto simp: shutdownChild_def)

lemma launches_append: "launches (xs @ ys) = launches xs @ launches ys"
  by (induction xs rule: launches.induct) simp_all

lemma launches_shutdown: "launches (fst (shutdownChild c)) = []"
  by (simp add: shutdownChild_def)

lemma two_requests_one_relaunch:
  assumes "restartChan s = 0"
    and "ticksBefore it1 = []" "ticksWhileRunning it1 = []" "polled it1 = PollNone" "startOk it1"
    and "chosen it1 = RestartRequested" "exitsInGrace (child it1) \<or> exitsAfterKill (child it1)"
    and "ticksBefore it2 = []" "ticksWhileRunning it2 = []" "polled it2 = PollNone" "startOk it2"
    and "chosen it2 = RestartRequested"
  shows "launches (fst (Run ext cfg (it1 # it2 # its) (triggerRestart (triggerRestart s))))
           = [launchArgs ext cfg (IsThrottled (state s)), launchArgs ext cfg (IsThrottled (state s))]
         \<and> fst (snd (Run ext cfg (it1 # it2 # its) (triggerRestart (triggerRestart s)))) = NotReturned"
proof -
  let ?s2 = "triggerRestart (triggerRestart s)"
  have r: "recvRestart ?s2 = Some s" "recvRestart s = None"
    using recv_after_two [OF assms(1)] by simp_all
  have st: "state ?s2 = state s"
    by (simp add: triggerRestart_def)
  have second: "Run ext cfg (it2 # its) s
      = ([Launch (launchArgs ext cfg (IsThrottled (state s)))], NotReturned, s)"
    using assms(8-12) r(2) by (simp add: Run.simps(2) Let_def)
  have stop: "snd (shutdownChild ((child it1)\<lparr>childStarted := True\<rparr>))"
    using assms(7) by (rule shutdownChild_returns)
  have first: "Run ext cfg (it1 # it2 # its) ?s2
      = (Launch (launchArgs ext cfg (IsThrottled (state s)))
           # fst (shutdownChild ((child it1)\<lparr>childStarted := True\<rparr>))
           @ [Launch (launchArgs ext cfg (IsThrottled (state s)))], NotReturned, s)"
    using assms(2-6) r(1) stop second st by (simp add: Run.simps(2) Let_def)
  show ?thesis
    unfolding first by (simp add: launches_append launches_shutdown)
qed


text \<open>
  C5. The restart channel holds at most one request: a request raised while the channel
  is within its capacity of one leaves it so, as does a monitor tick; a request raised
  while one is pending changes nothing. After two requests raised on an empty channel
  one receive succeeds and the next one finds the channel empty. In the main loop, with
  no monitor tick in between, the two requests make one relaunch: the worker is launched,
  stopped and launched again, and the loop then stays blocked, for the restart case of
  its \<open>select\<close> is not enabled.
\<close>

theorem restart_requests_coalesce:
  "restartChanCap = 1
   \<and> (restartChan s \<le> restartChanCap \<longrightarrow>
        restartChan (triggerRestart s) \<le> restartChanCap
        \<and> restartChan (checkTraffic ext cfg now r s) \<le> restartChanCap)
   \<and> (restartChan s = restartChanCap \<longrightarrow> triggerRestart s = s)
   \<and> (restartChan s = 0 \<longrightarrow>
        recvRestart (triggerRestart (triggerRestart s)) = Some s \<and> recvRestart s = None)
   \<and> (restartChan s = 0
        \<and> ticksBefore it1 = [] \<and> ticksWhileRunning it1 = [] \<and> polled it1 = PollNone
        \<and> startOk it1 \<and> chosen it1 = RestartRequested
        \<and> (exitsInGrace (child it1) \<or> exitsAfterKill (child it1))
        \<and> ticksBefore it2 = [] \<and> ticksWhileRunning it2 = [] \<and> polled it2 = PollNone
        \<and> startOk it2 \<and> chosen it2 = RestartRequested \<longrightarrow>
        launches (fst (Run ext cfg (it1 # it2 # its) (triggerRestart (triggerRestart s))))
          = [launchArgs ext cfg (IsThrottled (state s)), launchArgs ext cfg (IsThrottled (state s))]
        \<and> fst (snd (Run ext cfg (it1 # it2 # its) (triggerRestart (triggerRestart s))))
            = NotReturned)"
  using triggerRestart_le [of s] checkTraffic_chan_le [of s ext cfg now r]
    triggerRestart_full [of s] recv_after_two [of s]
    two_requests_one_relaunch [of s it1 it2 ext cfg its]
  by (simp add: restartChanCap_def)

text \<open>
  Two requests on the empty channel of a fresh supervisor, and a third on the full one;
  two iterations that both wait for a restart request.
\<close>

theorem restart_requests_coalesce_witness:
  "restartChan (exampleSupervisor 0 5000 False 5000) = 0
   \<and> restartChan (triggerRestart (exampleSupervisor 0 5000 False 5000)) = restartChanCap
   \<and> triggerRestart (triggerRestart (exampleSupervisor 0 5000 False 5000))
       = triggerRestart (exampleSupervisor 0 5000 False 5000)
   \<and> recvRestart (triggerRestart (triggerRestart (exampleSupervisor 0 5000 False 5000)))
       = Some (exampleSupervisor 0 5000 False 5000)
   \<and> recvRestart (exampleSupervisor 0 5000 False 5000) = None
   \<and> launches (fst (Run exampleExtern exampleConfig
         [exampleIteration [] RestartRequested, exampleIteration [] RestartRequested]
         (triggerRestart (triggerRestart (exampleSupervisor 0 5000 False 5000)))))
       = [[''start'', ''--max-clients'', ''200'', ''-b=40'', ''-v''],
          [''start'', ''--max-clients'', ''200'', ''-b=40'', ''-v'']]"
proof -
  have z: "restartChan (exampleSupervisor 0 5000 False 5000) = 0"
    and f: "restartChan (triggerRestart (exampleSupervisor 0 5000 False 5000)) = restartChanCap"
    and n: "\<not> IsThrottled (state (exampleSupervisor 0 5000 False 5000))"
    by (simp_all add: exampleSupervisor_def triggerRestart_def restartChanCap_def)
  have a: "launchArgs exampleExtern exampleConfig False
      = [''start'', ''--max-clients'', ''200'', ''-b=40'', ''-v'']"
    by (simp add: launchArgs_def exampleConfig_def)
  note t1 = restart_requests_coalesce [of "exampleSupervisor 0 5000 False 5000"
      exampleExtern exampleConfig 0 NoResponse
      "exampleIteration [] RestartRequested" "exampleIteration [] RestartRequested" "[]"]
  note t2 = restart_requests_coalesce [of "triggerRestart (exampleSupervisor 0 5000 False 5000)"
      exampleExtern exampleConfig 0 NoResponse
      "exampleIteration [] RestartRequested" "exampleIteration [] RestartRequested" "[]"]
  from t2 f have b: "triggerRestart (triggerRestart (exampleSupervisor 0 5000 False 5000))
       = triggerRestart (exampleSupervisor 0 5000 False 5000)"
    by blast
  from t1 z have c: "recvRestart (triggerRestart (triggerRestart (exampleSupervisor 0 5000 False 5000)))
       = Some (exampleSupervisor 0 5000 False 5000)"
    and d: "recvRestart (exampleSupervisor 0 5000 False 5000) = None"
    by blast+
  have e: "ticksBefore (exampleIteration [] RestartRequested) = []
      \<and> ticksWhileRunning (exampleIteration [] RestartRequested) = []
      \<and> polled (exampleIteration [] RestartRequested) = PollNone
      \<and> startOk (exampleIteration [] RestartRequested)
      \<and> chosen (exampleIteration [] RestartRequested) = RestartRequested
      \<and> exitsInGrace (child (exampleIteration [] RestartRequested))"
    by (simp add: exampleIteration_def)
  from t1 z e n a have g: "launches (fst (Run exampleExtern exampleConfig
         [exampleIteration [] RestartRequested, exampleIteration [] RestartRequested]
         (triggerRestart (triggerRestart (exampleSupervisor 0 5000 False 5000)))))
       = [[''start'', ''--max-clients'', ''200'', ''-b=40'', ''-v''],
          [''start'', ''--max-clients'', ''200'', ''-b=40'', ''-v'']]"
    by simp
  from z f b c d g show ?thesis by blast
qed

subsection \<open>The main loop after the worker fails\<close>

lemma Run_failed_exit:
  assumes "polled it = PollNone" "startOk it" "chosen it = ChildExit True"
  shows "Run ext cfg (it # its) s =
    (Launch (launchArgs ext cfg (IsThrottled (state (monitorLoop ext cfg (ticksBefore it) s))))
       # Backoff backoffSeconds
       # fst (Run ext cfg its (monitorLoop ext cfg (ticksWhileRunning it)
                (monitorLoop ext cfg (ticksBefore it) s))),
     snd (Run ext cfg its (monitorLoop ext cfg (ticksWhileRunning it)
                (monitorLoop ext cfg (ticksBefore it) s))))"
  using assms by (simp add: Run.simps(2) Let_def split: prod.splits)

lemma Run_first_launch:
  assumes "polled it = PollNone" "startOk it"
  shows "\<exists>tr. fst (Run ext cfg (it # its) s) =
    Launch (launchArgs ext cfg (IsThrottled (state (monitorLoop ext cfg (ticksBefore it) s)))) # tr"
  using assms
  by (cases "chosen it") (auto simp: Run.simps(2) Let_def split: prod.splits option.splits)

lemma Run_launch_error:
  assumes "polled it = PollNone" "\<not> startOk it"
  shows "Run ext cfg (it # its) s = ([], ReturnedError, monitorLoop ext cfg (ticksBefore it) s)"
  using assms by (simp add: Run.simps(2) Let_def)

lemma Run_clean_exit:
  assumes "polled it = PollNone" "startOk it" "chosen it = ChildExit False"
  shows "Run ext cfg (it # its) s =
    ([Launch (launchArgs ext cfg (IsThrottled (state (monitorLoop ext cfg (ticksBefore it) s))))],
     ReturnedNil,
     monitorLoop ext cfg (ticksWhileRunning it) (monitorLoop ext cfg (ticksBefore it) s))"
  using assms by (simp add: Run.simps(2) Let_def)

lemma Run_polled:
  assumes "polled it \<noteq> PollNone"
  shows "Run ext cfg (it # its) s = ([], ReturnedNil, monitorLoop ext cfg (ticksBefore it) s)"
  using assms by (simp add: Run.simps(2) Let_def)

text \<open>
  C9 (amended). When the worker exits with a non-zero status after a successful launch,
  the supervisor waits for the fixed backoff and goes back to the top of the loop. If no
  stop is pending there, it relaunches the worker with the arguments of the mode that
  the ledger's throttle flag gives when the loop reads it again; these are the arguments
  of the failed launch whenever the monitor has not changed the flag in the meantime. A
  failed relaunch ends the loop with the error and a clean exit ends it: neither is
  retried.
\<close>

theorem nonzero_exit_relaunch:
  assumes "s1 = monitorLoop ext cfg (ticksBefore it) s"
    and "s2 = monitorLoop ext cfg (ticksWhileRunning it) s1"
    and "s3 = monitorLoop ext cfg (ticksBefore nxt) s2"
    and "polled it = PollNone" and "startOk it"
  shows
    "(chosen it = ChildExit True \<longrightarrow>
        fst (Run ext cfg (it # its) s)
          = Launch (launchArgs ext cfg (IsThrottled (state s1))) # Backoff backoffSeconds
              # fst (Run ext cfg its s2))
     \<and> (chosen it = ChildExit True \<and> polled nxt = PollNone \<and> startOk nxt \<longrightarrow>
        take 3 (fst (Run ext cfg (it # nxt # its) s))
          = [Launch (launchArgs ext cfg (IsThrottled (state s1))), Backoff backoffSeconds,
             Launch (launchArgs ext cfg (IsThrottled (state s3)))])
     \<and> (chosen it = ChildExit True \<and> polled nxt \<noteq> PollNone \<longrightarrow>
        Run ext cfg (it # nxt # its) s
          = ([Launch (launchArgs ext cfg (IsThrottled (state s1))), Backoff backoffSeconds],
             ReturnedNil, s3))
     \<and> (chosen it = ChildExit True \<and> polled nxt = PollNone \<and> \<not> startOk nxt \<longrightarrow>
        Run ext cfg (it # nxt # its) s
          = ([Launch (launchArgs ext cfg (IsThrottled (state s1))), Backoff backoffSeconds],
             ReturnedError, s3))
     \<and> (chosen it = ChildExit False \<longrightarrow>
        Run ext cfg (it # its) s
          = ([Launch (launchArgs ext cfg (IsThrottled (state s1)))], ReturnedNil, s2))"
proof -
  have a: "chosen it = ChildExit True \<Longrightarrow> Run ext cfg (it # its') s =
      (Launch (launchArgs ext cfg (IsThrottled (state s1))) # Backoff backoffSeconds
         # fst (Run ext cfg its' s2), snd (Run ext cfg its' s2))" for its'
    using Run_failed_exit [OF assms(4,5), of ext cfg its' s] assms(1,2) by simp
  have p1: "chosen it = ChildExit True \<longrightarrow>
        fst (Run ext cfg (it # its) s)
          = Launch (launchArgs ext cfg (IsThrottled (state s1))) # Backoff backoffSeconds
              # fst (Run ext cfg its s2)"
    using a by simp
  have p2: "chosen it = ChildExit True \<and> polled nxt = PollNone \<and> startOk nxt \<longrightarrow>
        take 3 (fst (Run ext cfg (it # nxt # its) s))
          = [Launch (launchArgs ext cfg (IsThrottled (state s1))), Backoff backoffSeconds,
             Launch (launchArgs ext cfg (IsThrottled (state s3)))]"
  proof (intro impI, elim conjE)
    assume c: "chosen it = ChildExit True" and n: "polled nxt = PollNone" "startOk nxt"
    from Run_first_launch [OF n, of ext cfg its s2] assms(3)
    obtain tr where "fst (Run ext cfg (nxt # its) s2)
        = Launch (launchArgs ext cfg (IsThrottled (state s3))) # tr"
      by auto
    then show "take 3 (fst (Run ext cfg (it # nxt # its) s))
          = [Launch (launchArgs ext cfg (IsThrottled (state s1))), Backoff backoffSeconds,
             Launch (launchArgs ext cfg (IsThrottled (state s3)))]"
      by (simp add: a [OF c])
  qed
  have p3: "chosen it = ChildExit True \<and> polled nxt \<noteq> PollNone \<longrightarrow>
        Run ext cfg (it # nxt # its) s
          = ([Launch (launchArgs ext cfg (IsThrottled (state s1))), Backoff backoffSeconds],
             ReturnedNil, s3)"
    using a [of "nxt # its"] Run_polled [of nxt ext cfg its s2] assms(3) by simp
  have p4: "chosen it = ChildExit True \<and> polled nxt = PollNone \<and> \<not> startOk nxt \<longrightarrow>
        Run ext cfg (it # nxt # its) s
          = ([Launch (launchArgs ext cfg (IsThrottled (state s1))), Backoff backoffSeconds],
             ReturnedError, s3)"
    using a [of "nxt # its"] Run_launch_error [of nxt ext cfg its s2] assms(3) by simp
  have p5: "chosen it = ChildExit False \<longrightarrow>
        Run ext cfg (it # its) s
          = ([Launch (launchArgs ext cfg (IsThrottled (state s1)))], ReturnedNil, s2)"
    using Run_clean_exit [OF assms(4,5), of ext cfg its s] assms(1,2) by simp
  show ?thesis using p1 p2 p3 p4 p5 by blast
qed


text \<open>No monitor tick between the failed launch and the relaunch: the same arguments.\<close>

theorem nonzero_exit_relaunch_witness:
  "take 3 (fst (Run exampleExtern exampleConfig
     [exampleIteration [] (ChildExit True), exampleIteration [] (ChildExit False)]
     (exampleSupervisor 0 90000000000 True 1000)))
   = [Launch (launchArgs exampleExtern exampleConfig True), Backoff backoffSeconds,
      Launch (launchArgs exampleExtern exampleConfig True)]"
proof -
  have e: "polled (exampleIteration [] (ChildExit True)) = PollNone
      \<and> startOk (exampleIteration [] (ChildExit True))
      \<and> chosen (exampleIteration [] (ChildExit True)) = ChildExit True
      \<and> ticksBefore (exampleIteration [] (ChildExit True)) = []
      \<and> ticksWhileRunning (exampleIteration [] (ChildExit True)) = []
      \<and> polled (exampleIteration [] (ChildExit False)) = PollNone
      \<and> startOk (exampleIteration [] (ChildExit False))
      \<and> ticksBefore (exampleIteration [] (ChildExit False)) = []"
    by (simp add: exampleIteration_def)
  have y: "IsThrottled (state (exampleSupervisor 0 90000000000 True 1000))"
    by (simp add: exampleSupervisor_def)
  show ?thesis
    using nonzero_exit_relaunch [where ext = exampleExtern and cfg = exampleConfig
        and it = "exampleIteration [] (ChildExit True)"
        and nxt = "exampleIteration [] (ChildExit False)"
        and s = "exampleSupervisor 0 90000000000 True 1000" and its = "[]"
        and ?s1.0 = "exampleSupervisor 0 90000000000 True 1000"
        and ?s2.0 = "exampleSupervisor 0 90000000000 True 1000"
        and ?s3.0 = "exampleSupervisor 0 90000000000 True 1000"]
      e y
    by simp
qed

lemma launchArgs_example_throttled:
  "launchArgs exampleExtern exampleConfig True
     = [''start'', ''-v'', ''--max-clients'', ''10'', ''--bandwidth'', ''10'']"
  by (simp add: launchArgs_def filterArgs_def exampleConfig_def exampleExtern_def looksLikeValue_def)

lemma launchArgs_example_normal:
  "launchArgs exampleExtern exampleConfig False
     = [''start'', ''--max-clients'', ''200'', ''-b=40'', ''-v'']"
  by (simp add: launchArgs_def exampleConfig_def)

text \<open>
  The specification promises the mode of the failed launch. A throttled worker fails;
  during the backoff the monitor ticks, finds the period over and clears the throttle
  flag; the relaunch is in normal mode, with the operator's arguments.
\<close>

theorem relaunch_mode_counterexample:
  "fst (Run exampleExtern exampleConfig
     [exampleIteration [] (ChildExit True),
      exampleIteration [(604800000000001, NoResponse)] (ChildExit False)]
     (exampleSupervisor 0 90000000000 True 1000))
   = [Launch [''start'', ''-v'', ''--max-clients'', ''10'', ''--bandwidth'', ''10''],
      Backoff 5,
      Launch [''start'', ''--max-clients'', ''200'', ''-b=40'', ''-v'']]"
proof -
  have t: "monitorLoop exampleExtern exampleConfig [(604800000000001, NoResponse)]
      (exampleSupervisor 0 90000000000 True 1000)
      = (exampleSupervisor 604800000000001 0 False 0)\<lparr>restartChan := 1\<rparr>"
    by (simp add: monitorLoop_def checkTraffic_def checkPeriod_def periodEnd_def examplePeriod
        exampleSupervisor_def triggerRestart_def restartChanCap_def Let_def)
  show ?thesis
    by (simp add: Run.simps(2) exampleIteration_def Let_def t launchArgs_example_throttled
        launchArgs_example_normal backoffSeconds_def)
      (simp add: exampleSupervisor_def launchArgs_example_throttled launchArgs_example_normal)
qed


subsection \<open>Stopping the child\<close>

lemma Run_stop_requested:
  assumes "polled it = PollNone" "startOk it" "chosen it = SignalReceived \<or> chosen it = StopRequested"
  shows "Run ext cfg (it # its) s =
    (Launch (launchArgs ext cfg (IsThrottled (state (monitorLoop ext cfg (ticksBefore it) s))))
       # fst (shutdownChild ((child it)\<lparr>childStarted := True\<rparr>)),
     if snd (shutdownChild ((child it)\<lparr>childStarted := True\<rparr>)) then ReturnedNil else NotReturned,
     monitorLoop ext cfg (ticksWhileRunning it) (monitorLoop ext cfg (ticksBefore it) s))"
  using assms by (auto simp: Run.simps(2) Let_def)

text \<open>
  C6. A stop of a started child first sends the termination signal. If the exit
  notification arrives before the timer of 5 seconds fires, nothing more is sent and the
  call returns. If the timer fires first, the kill signal is sent and the call waits for
  the exit notification with no further timer: it returns when the notification arrives
  and does not return when it never does. Whenever the call returns, the last thing it
  did was to receive the exit notification. The main loop stops only children it has
  started, and it returns after a signal or a stop request exactly when the stop
  returns.
\<close>

theorem shutdownChild_waits_for_exit:
  "(childStarted c \<and> exitsInGrace c \<longrightarrow>
      shutdownChild c = ([SendSignal SIGTERM, ExitReceived], True))
   \<and> (childStarted c \<and> \<not> exitsInGrace c \<and> exitsAfterKill c \<longrightarrow>
      shutdownChild c
        = ([SendSignal SIGTERM, TimerFired 5, SendSignal SIGKILL, ExitReceived], True))
   \<and> (childStarted c \<and> \<not> exitsInGrace c \<and> \<not> exitsAfterKill c \<longrightarrow>
      shutdownChild c = ([SendSignal SIGTERM, TimerFired 5, SendSignal SIGKILL], False))
   \<and> (childStarted c \<and> snd (shutdownChild c) \<longrightarrow>
      hd (fst (shutdownChild c)) = SendSignal SIGTERM
      \<and> last (fst (shutdownChild c)) = ExitReceived)
   \<and> (polled it = PollNone \<and> startOk it
       \<and> (chosen it = SignalReceived \<or> chosen it = StopRequested) \<longrightarrow>
      fst (Run ext cfg (it # its) s)
        = Launch (launchArgs ext cfg (IsThrottled (state (monitorLoop ext cfg (ticksBefore it) s))))
            # fst (shutdownChild ((child it)\<lparr>childStarted := True\<rparr>))
      \<and> (fst (snd (Run ext cfg (it # its) s)) = ReturnedNil \<longleftrightarrow>
           snd (shutdownChild ((child it)\<lparr>childStarted := True\<rparr>))))"
proof -
  have a: "childStarted c \<and> exitsInGrace c \<longrightarrow>
      shutdownChild c = ([SendSignal SIGTERM, ExitReceived], True)"
    by (simp add: shutdownChild_def)
  have b: "childStarted c \<and> \<not> exitsInGrace c \<and> exitsAfterKill c \<longrightarrow>
      shutdownChild c
        = ([SendSignal SIGTERM, TimerFired 5, SendSignal SIGKILL, ExitReceived], True)"
    by (simp add: shutdownChild_def graceSeconds_def)
  have c: "childStarted c \<and> \<not> exitsInGrace c \<and> \<not> exitsAfterKill c \<longrightarrow>
      shutdownChild c = ([SendSignal SIGTERM, TimerFired 5, SendSignal SIGKILL], False)"
    by (simp add: shutdownChild_def graceSeconds_def)
  have d: "childStarted c \<and> snd (shutdownChild c) \<longrightarrow>
      hd (fst (shutdownChild c)) = SendSignal SIGTERM
      \<and> last (fst (shutdownChild c)) = ExitReceived"
    by (simp add: shutdownChild_def)
  have e: "polled it = PollNone \<and> startOk it
       \<and> (chosen it = SignalReceived \<or> chosen it = StopRequested) \<longrightarrow>
      fst (Run ext cfg (it # its) s)
        = Launch (launchArgs ext cfg (IsThrottled (state (monitorLoop ext cfg (ticksBefore it) s))))
            # fst (shutdownChild ((child it)\<lparr>childStarted := True\<rparr>))
      \<and> (fst (snd (Run ext cfg (it # its) s)) = ReturnedNil \<longleftrightarrow>
           snd (shutdownChild ((child it)\<lparr>childStarted := True\<rparr>)))"
    using Run_stop_requested [of it ext cfg its s] by simp
  show ?thesis using a b c d e by blast
qed

text \<open>
  The stubborn child is killed after the timer; the same child, were it to exit in time,
  is not; were the kill to have no effect, the call would not return. A signal to the
  supervisor stops a well-behaved worker with the termination signal alone.
\<close>

theorem shutdownChild_waits_for_exit_witness:
  "childStarted stubbornChild \<and> \<not> exitsInGrace stubbornChild \<and> exitsAfterKill stubbornChild
   \<and> shutdownChild stubbornChild
       = ([SendSignal SIGTERM, TimerFired 5, SendSignal SIGKILL, ExitReceived], True)
   \<and> childStarted (stubbornChild\<lparr>exitsInGrace := True\<rparr>)
   \<and> exitsInGrace (stubbornChild\<lparr>exitsInGrace := True\<rparr>)
   \<and> shutdownChild (stubbornChild\<lparr>exitsInGrace := True\<rparr>) = ([SendSignal SIGTERM, ExitReceived], True)
   \<and> childStarted (stubbornChild\<lparr>exitsAfterKill := False\<rparr>)
   \<and> \<not> snd (shutdownChild (stubbornChild\<lparr>exitsAfterKill := False\<rparr>))
   \<and> fst (Run exampleExtern exampleConfig [exampleIteration [] SignalReceived]
        (exampleSupervisor 0 5000 False 5000))
       = [Launch (launchArgs exampleExtern exampleConfig False), SendSignal SIGTERM, ExitReceived]"
proof -
  have h: "childStarted stubbornChild \<and> \<not> exitsInGrace stubbornChild \<and> exitsAfterKill stubbornChild"
    "childStarted (stubbornChild\<lparr>exitsInGrace := True\<rparr>) \<and> exitsInGrace (stubbornChild\<lparr>exitsInGrace := True\<rparr>)"
    "childStarted (stubbornChild\<lparr>exitsAfterKill := False\<rparr>)
       \<and> \<not> exitsInGrace (stubbornChild\<lparr>exitsAfterKill := False\<rparr>)
       \<and> \<not> exitsAfterKill (stubbornChild\<lparr>exitsAfterKill := False\<rparr>)"
    by (simp_all add: stubbornChild_def)
  have i: "polled (exampleIteration [] SignalReceived) = PollNone
      \<and> startOk (exampleIteration [] SignalReceived)
      \<and> chosen (exampleIteration [] SignalReceived) = SignalReceived
      \<and> ticksBefore (exampleIteration [] SignalReceived) = []
      \<and> (child (exampleIteration [] SignalReceived))\<lparr>childStarted := True\<rparr>
          = stubbornChild\<lparr>exitsInGrace := True\<rparr>"
    by (simp add: exampleIteration_def stubbornChild_def)
  have n: "\<not> IsThrottled (state (exampleSupervisor 0 5000 False 5000))"
    by (simp add: exampleSupervisor_def)
  note t1 = shutdownChild_waits_for_exit [of stubbornChild "exampleIteration [] SignalReceived"
      exampleExtern exampleConfig "[]" "exampleSupervisor 0 5000 False 5000"]
  note t2 = shutdownChild_waits_for_exit [of "stubbornChild\<lparr>exitsInGrace := True\<rparr>"
      "exampleIteration [] SignalReceived"
      exampleExtern exampleConfig "[]" "exampleSupervisor 0 5000 False 5000"]
  note t3 = shutdownChild_waits_for_exit [of "stubbornChild\<lparr>exitsAfterKill := False\<rparr>"
      "exampleIteration [] SignalReceived"
      exampleExtern exampleConfig "[]" "exampleSupervisor 0 5000 False 5000"]
  from t1 h(1) have a: "shutdownChild stubbornChild
       = ([SendSignal SIGTERM, TimerFired 5, SendSignal SIGKILL, ExitReceived], True)"
    by blast
  from t2 h(2) have b: "shutdownChild (stubbornChild\<lparr>exitsInGrace := True\<rparr>)
       = ([SendSignal SIGTERM, ExitReceived], True)"
    by blast
  from t3 h(3) have "shutdownChild (stubbornChild\<lparr>exitsAfterKill := False\<rparr>)
       = ([SendSignal SIGTERM, TimerFired 5, SendSignal SIGKILL], False)"
    by blast
  then have c: "\<not> snd (shutdownChild (stubbornChild\<lparr>exitsAfterKill := False\<rparr>))"
    by simp
  from t1 i n b have d: "fst (Run exampleExtern exampleConfig [exampleIteration [] SignalReceived]
        (exampleSupervisor 0 5000 False 5000))
       = [Launch (launchArgs exampleExtern exampleConfig False), SendSignal SIGTERM, ExitReceived]"
    by simp
  from h a b c d show ?thesis by blast
qed

subsection \<open>The arguments of a throttled launch\<close>


















subsection \<open>Parsing the metrics\<close>













lemma scanLine_fst:
  "fst (scanLine ext acc line) \<noteq> fst acc \<Longrightarrow> counterValue ext ''conduit_bytes_uploaded'' line \<noteq> None"
  by (cases acc) (auto simp: scanLine_def split: if_splits option.splits)

lemma scanLine_snd:
  "snd (scanLine ext acc line) \<noteq> snd acc \<Longrightarrow> counterValue ext ''conduit_bytes_downloaded'' line \<noteq> None"
  by (cases acc) (auto simp: scanLine_def split: if_splits option.splits)

lemma foldl_scanLine_fst:
  "\<forall>line\<in>set ls. counterValue ext ''conduit_bytes_uploaded'' line = None \<Longrightarrow>
     fst (foldl (scanLine ext) acc ls) = fst acc"
proof (induction ls arbitrary: acc)
  case Nil
  then show ?case by simp
next
  case (Cons l ls)
  then have "fst (scanLine ext acc l) = fst acc"
    using scanLine_fst [of ext acc l] by auto
  with Cons show ?case by simp
qed

lemma foldl_scanLine_snd:
  "\<forall>line\<in>set ls. counterValue ext ''conduit_bytes_downloaded'' line = None \<Longrightarrow>
     snd (foldl (scanLine ext) acc ls) = snd acc"
proof (induction ls arbitrary: acc)
  case Nil
  then show ?case by simp
next
  case (Cons l ls)
  then have "snd (scanLine ext acc l) = snd acc"
    using scanLine_snd [of ext acc l] by auto
  with Cons show ?case by simp
qed

lemma scrape_ok:
  "scrapeBytesUsed ext (Response 200 (Some body))
     = Inr (fst (parseMetrics ext body) + snd (parseMetrics ext body))"
  by (simp add: scrapeBytesUsed_def split: prod.splits)




subsection \<open>A counter whose value does not parse\<close>

lemma updateUsage_after_drop:
  fixes tot :: "64 word"
  assumes "0 \<le> sint tot" "sint tot < sint (lastScrapeTotal s)"
  shows "BytesUsed (state (updateUsage ext tot s)) = BytesUsed (state s) + tot"
proof -
  have l: "0 \<le> sint (lastScrapeTotal s)" using assms by linarith
  have "sint (usageDelta tot (lastScrapeTotal s)) = sint tot"
    using usageDelta_nonneg [OF assms(1) l] assms(2) by simp
  then have e: "usageDelta tot (lastScrapeTotal s) = tot"
    by (simp only: signed_word_eqI)
  show ?thesis
  proof (cases "0 <s tot")
    case True
    then show ?thesis by (simp add: updateUsage_word e)
  next
    case False
    then have "sint tot = sint (0 :: 64 word)"
      using assms(1) by (simp add: word_sless_alt)
    then have "tot = 0" by (simp only: signed_word_eqI)
    with e show ?thesis by (simp add: updateUsage_word)
  qed
qed

lemma counterValue_malformed:
  "prefix (name @ '' '') line \<Longrightarrow> 2 \<le> length (Fields line) \<Longrightarrow>
     ParseFloat ext (Fields line ! 1) = None \<Longrightarrow> counterValue ext name line = None"
  by (simp add: counterValue_def)

lemma uploaded_not_downloaded:
  assumes "prefix ''conduit_bytes_uploaded '' line"
  shows "counterValue ext ''conduit_bytes_downloaded'' line = None"
proof -
  have "\<not> prefix ''conduit_bytes_downloaded '' line"
  proof
    assume "prefix ''conduit_bytes_downloaded '' line"
    with assms have "prefix ''conduit_bytes_uploaded '' ''conduit_bytes_downloaded ''
        \<or> prefix ''conduit_bytes_downloaded '' ''conduit_bytes_uploaded ''"
      by (rule prefix_same_cases)
    then show False by simp
  qed
  then show ?thesis by (simp add: counterValue_def)
qed

lemma downloaded_not_uploaded:
  assumes "prefix ''conduit_bytes_downloaded '' line"
  shows "counterValue ext ''conduit_bytes_uploaded'' line = None"
proof -
  have "\<not> prefix ''conduit_bytes_uploaded '' line"
  proof
    assume "prefix ''conduit_bytes_uploaded '' line"
    with assms have "prefix ''conduit_bytes_downloaded '' ''conduit_bytes_uploaded ''
        \<or> prefix ''conduit_bytes_uploaded '' ''conduit_bytes_downloaded ''"
      by (rule prefix_same_cases)
    then show False by simp
  qed
  then show ?thesis by (simp add: counterValue_def)
qed

lemma scanLine_no_match:
  "counterValue ext ''conduit_bytes_uploaded'' line = None \<Longrightarrow>
   counterValue ext ''conduit_bytes_downloaded'' line = None \<Longrightarrow> scanLine ext acc line = acc"
  by (cases acc) (simp add: scanLine_def)

lemma scanLine_malformed:
  assumes "prefix ''conduit_bytes_uploaded '' line \<or> prefix ''conduit_bytes_downloaded '' line"
    and "2 \<le> length (Fields line)" and "ParseFloat ext (Fields line ! 1) = None"
  shows "scanLine ext acc line = acc"
proof -
  from assms(1) show ?thesis
  proof
    assume p: "prefix ''conduit_bytes_uploaded '' line"
    then have "counterValue ext ''conduit_bytes_uploaded'' line = None"
      using counterValue_malformed [of "''conduit_bytes_uploaded''" line ext] assms(2,3) by simp
    with uploaded_not_downloaded [OF p] show ?thesis by (rule scanLine_no_match [rotated])
  next
    assume p: "prefix ''conduit_bytes_downloaded '' line"
    then have "counterValue ext ''conduit_bytes_downloaded'' line = None"
      using counterValue_malformed [of "''conduit_bytes_downloaded''" line ext] assms(2,3) by simp
    with downloaded_not_uploaded [OF p] show ?thesis by (rule scanLine_no_match)
  qed
qed

lemma parseMetrics_skips:
  assumes "splitLines body = pre @ line # post"
    and "scanLine ext (foldl (scanLine ext) (0, 0) pre) line = foldl (scanLine ext) (0, 0) pre"
  shows "parseMetrics ext body = foldl (scanLine ext) (0, 0) (pre @ post)"
  using assms by (simp add: parseMetrics_def)

lemma splitLines_malformedBody:
  "splitLines malformedBody
     = [''# TYPE conduit_bytes_uploaded gauge'', ''conduit_bytes_uploaded 1,234'',
        ''conduit_bytes_downloaded 2100'', []]"
  by (simp add: malformedBody_def metricsBody_def)

lemma splitLines_repeatedBody:
  "splitLines repeatedBody = [''conduit_bytes_uploaded 7'', ''conduit_bytes_uploaded abc'', []]"
  by (simp add: repeatedBody_def)

lemma Fields_example_lines:
  "Fields ''conduit_bytes_uploaded 1,234'' = [''conduit_bytes_uploaded'', ''1,234'']"
  "Fields ''conduit_bytes_uploaded abc'' = [''conduit_bytes_uploaded'', ''abc'']"
  "Fields ''conduit_bytes_uploaded 7'' = [''conduit_bytes_uploaded'', ''7'']"
  "Fields ''conduit_bytes_downloaded 2100'' = [''conduit_bytes_downloaded'', ''2100'']"
  by (simp_all add: Fields_def asciiSpace_def)

text \<open>
  C10 (amended). A line that names one of the two counters and whose value field
  \<open>ParseFloat\<close> rejects assigns nothing and leaves both counters as they are: the
  counters of the response are those that its other lines give, so the counter keeps the
  value of an earlier line, and it is 0 when no line assigns it. The scrape of a
  response with status 200 never returns an error, and within the period
  \<open>checkTraffic\<close> feeds its total to \<open>updateUsage\<close>. There a total that is not
  negative and lies below \<open>lastScrapeTotal\<close> is taken for the total of a restarted
  worker: the whole of it is added to \<open>BytesUsed\<close>, and it becomes
  \<open>lastScrapeTotal\<close>.
\<close>

theorem malformed_value_is_skipped:
  "(prefix (name @ '' '') line \<and> 2 \<le> length (Fields line)
      \<and> ParseFloat ext (Fields line ! 1) = None \<longrightarrow>
      counterValue ext name line = None)
   \<and> ((prefix ''conduit_bytes_uploaded '' line \<or> prefix ''conduit_bytes_downloaded '' line)
      \<and> 2 \<le> length (Fields line) \<and> ParseFloat ext (Fields line ! 1) = None \<longrightarrow>
      scanLine ext acc line = acc)
   \<and> ((prefix ''conduit_bytes_uploaded '' line \<or> prefix ''conduit_bytes_downloaded '' line)
      \<and> 2 \<le> length (Fields line) \<and> ParseFloat ext (Fields line ! 1) = None
      \<and> splitLines body = pre @ line # post \<longrightarrow>
      parseMetrics ext body = foldl (scanLine ext) (0, 0) (pre @ post))
   \<and> ((\<forall>l\<in>set (splitLines body). counterValue ext ''conduit_bytes_uploaded'' l = None) \<longrightarrow>
      scrapeBytesUsed ext (Response 200 (Some body)) = Inr (snd (parseMetrics ext body)))
   \<and> ((\<forall>l\<in>set (splitLines body). counterValue ext ''conduit_bytes_downloaded'' l = None) \<longrightarrow>
      scrapeBytesUsed ext (Response 200 (Some body)) = Inr (fst (parseMetrics ext body)))
   \<and> scrapeBytesUsed ext (Response 200 (Some body))
       = Inr (fst (parseMetrics ext body) + snd (parseMetrics ext body))
   \<and> (\<not> periodEnd cfg s < now \<longrightarrow>
      checkTraffic ext cfg now (Response 200 (Some body)) s
        = updateUsage ext (fst (parseMetrics ext body) + snd (parseMetrics ext body)) s)
   \<and> (0 \<le> sint tot \<and> sint tot < sint (lastScrapeTotal s) \<longrightarrow>
      BytesUsed (state (updateUsage ext tot s)) = BytesUsed (state s) + tot
      \<and> lastScrapeTotal (updateUsage ext tot s) = tot)"
proof -
  have p1: "prefix (name @ '' '') line \<and> 2 \<le> length (Fields line)
      \<and> ParseFloat ext (Fields line ! 1) = None \<longrightarrow>
      counterValue ext name line = None"
    using counterValue_malformed by blast
  have p2: "(prefix ''conduit_bytes_uploaded '' line \<or> prefix ''conduit_bytes_downloaded '' line)
      \<and> 2 \<le> length (Fields line) \<and> ParseFloat ext (Fields line ! 1) = None \<longrightarrow>
      scanLine ext acc line = acc" for acc
    using scanLine_malformed by blast
  have p3: "(prefix ''conduit_bytes_uploaded '' line \<or> prefix ''conduit_bytes_downloaded '' line)
      \<and> 2 \<le> length (Fields line) \<and> ParseFloat ext (Fields line ! 1) = None
      \<and> splitLines body = pre @ line # post \<longrightarrow>
      parseMetrics ext body = foldl (scanLine ext) (0, 0) (pre @ post)"
    using p2 [of "foldl (scanLine ext) (0, 0) pre"] parseMetrics_skips [of body pre line post ext]
    by blast
  have p4: "(\<forall>l\<in>set (splitLines body). counterValue ext ''conduit_bytes_uploaded'' l = None) \<longrightarrow>
      scrapeBytesUsed ext (Response 200 (Some body)) = Inr (snd (parseMetrics ext body))"
    using foldl_scanLine_fst [of "splitLines body" ext "(0, 0)"]
    by (simp add: scrape_ok parseMetrics_def)
  have p5: "(\<forall>l\<in>set (splitLines body). counterValue ext ''conduit_bytes_downloaded'' l = None) \<longrightarrow>
      scrapeBytesUsed ext (Response 200 (Some body)) = Inr (fst (parseMetrics ext body))"
    using foldl_scanLine_snd [of "splitLines body" ext "(0, 0)"]
    by (simp add: scrape_ok parseMetrics_def)
  note p6 = scrape_ok [of ext body]
  have p7: "\<not> periodEnd cfg s < now \<longrightarrow>
      checkTraffic ext cfg now (Response 200 (Some body)) s
        = updateUsage ext (fst (parseMetrics ext body) + snd (parseMetrics ext body)) s"
    using checkTraffic_success [of cfg s now ext "Response 200 (Some body)"] p6 by blast
  have p8: "0 \<le> sint tot \<and> sint tot < sint (lastScrapeTotal s) \<longrightarrow>
      BytesUsed (state (updateUsage ext tot s)) = BytesUsed (state s) + tot
      \<and> lastScrapeTotal (updateUsage ext tot s) = tot"
    using updateUsage_after_drop [of tot s ext] updateUsage_state [of ext tot s] by blast
  from p1 p2 [of acc] p3 p4 p5 p6 p7 p8 show ?thesis by blast
qed

text \<open>
  The worker has reported 5000 bytes. The next response gives \<open>1,234\<close> for the upload
  counter and 2100 for the download counter: the scrape returns 2100 and the ledger
  grows from 5000 to 7100. In the response that gives the upload counter as 7 and then
  as \<open>abc\<close>, the counters are those of the response without the second line.
\<close>

theorem malformed_value_is_skipped_witness:
  "prefix (''conduit_bytes_uploaded'' @ '' '') ''conduit_bytes_uploaded 1,234''
   \<and> 2 \<le> length (Fields ''conduit_bytes_uploaded 1,234'')
   \<and> ParseFloat exampleExtern (Fields ''conduit_bytes_uploaded 1,234'' ! 1) = None
   \<and> counterValue exampleExtern ''conduit_bytes_uploaded'' ''conduit_bytes_uploaded 1,234'' = None
   \<and> scrapeBytesUsed exampleExtern (Response 200 (Some malformedBody)) = Inr 2100
   \<and> checkTraffic exampleExtern exampleConfig 10 (Response 200 (Some malformedBody))
        (exampleSupervisor 0 5000 False 5000)
       = updateUsage exampleExtern 2100 (exampleSupervisor 0 5000 False 5000)
   \<and> BytesUsed (state (updateUsage exampleExtern 2100 (exampleSupervisor 0 5000 False 5000)))
       = 7100
   \<and> lastScrapeTotal (updateUsage exampleExtern 2100 (exampleSupervisor 0 5000 False 5000)) = 2100
   \<and> splitLines repeatedBody
       = [''conduit_bytes_uploaded 7''] @ ''conduit_bytes_uploaded abc'' # [[]]
   \<and> parseMetrics exampleExtern repeatedBody
       = foldl (scanLine exampleExtern) (0, 0) ([''conduit_bytes_uploaded 7''] @ [[]])"
proof -
  let ?s = "exampleSupervisor 0 5000 False 5000"
  note t = malformed_value_is_skipped [of "''conduit_bytes_uploaded''"
      "''conduit_bytes_uploaded 1,234''" exampleExtern "(0, 0)" malformedBody
      "[''# TYPE conduit_bytes_uploaded gauge'']" "[''conduit_bytes_downloaded 2100'', []]"
      exampleConfig ?s 10 2100]
  note u = malformed_value_is_skipped [of "''conduit_bytes_uploaded''"
      "''conduit_bytes_uploaded abc''" exampleExtern "(0, 0)" repeatedBody
      "[''conduit_bytes_uploaded 7'']" "[[]]" exampleConfig ?s 10 2100]
  have a: "prefix (''conduit_bytes_uploaded'' @ '' '') ''conduit_bytes_uploaded 1,234''"
    and b: "2 \<le> length (Fields ''conduit_bytes_uploaded 1,234'')"
    and c: "ParseFloat exampleExtern (Fields ''conduit_bytes_uploaded 1,234'' ! 1) = None"
    by (simp_all add: Fields_example_lines exampleParseFloat parseDecimal_def digitOf_def)
  from t a b c have d: "counterValue exampleExtern ''conduit_bytes_uploaded''
      ''conduit_bytes_uploaded 1,234'' = None"
    by blast
  have o: "counterValue exampleExtern ''conduit_bytes_uploaded'' ''# TYPE conduit_bytes_uploaded gauge'' = None"
    "counterValue exampleExtern ''conduit_bytes_uploaded'' ''conduit_bytes_downloaded 2100'' = None"
    "counterValue exampleExtern ''conduit_bytes_uploaded'' [] = None"
    by (simp_all add: counterValue_def)
  have h: "\<forall>l\<in>set (splitLines malformedBody).
      counterValue exampleExtern ''conduit_bytes_uploaded'' l = None"
    using d o by (simp only: splitLines_malformedBody list.set ball_simps)
  have pm: "parseMetrics exampleExtern malformedBody = (0, 2100)"
    by (simp add: parseMetrics_def splitLines_malformedBody scanLine_def counterValue_def
        Fields_example_lines exampleParseFloat parseDecimal_def digitOf_def)
  from t h pm have e: "scrapeBytesUsed exampleExtern (Response 200 (Some malformedBody)) = Inr 2100"
    by simp
  have n: "\<not> periodEnd exampleConfig ?s < 10"
    by (simp add: periodEnd_def examplePeriod exampleSupervisor_def)
  from t n pm have g: "checkTraffic exampleExtern exampleConfig 10 (Response 200 (Some malformedBody)) ?s
       = updateUsage exampleExtern 2100 ?s"
    by simp
  have q: "0 \<le> sint (2100 :: 64 word) \<and> sint (2100 :: 64 word) < sint (lastScrapeTotal ?s)"
    by (simp add: exampleSupervisor_def)
  from t q have "BytesUsed (state (updateUsage exampleExtern 2100 ?s))
      = BytesUsed (state ?s) + 2100"
    and i: "lastScrapeTotal (updateUsage exampleExtern 2100 ?s) = 2100"
    by blast+
  then have j: "BytesUsed (state (updateUsage exampleExtern 2100 ?s)) = 7100"
    by (simp add: exampleSupervisor_def)
  have k: "splitLines repeatedBody
       = [''conduit_bytes_uploaded 7''] @ ''conduit_bytes_uploaded abc'' # [[]]"
    by (simp add: splitLines_repeatedBody)
  have m: "prefix ''conduit_bytes_uploaded '' ''conduit_bytes_uploaded abc''
      \<and> 2 \<le> length (Fields ''conduit_bytes_uploaded abc'')
      \<and> ParseFloat exampleExtern (Fields ''conduit_bytes_uploaded abc'' ! 1) = None"
    by (simp add: Fields_example_lines exampleParseFloat parseDecimal_def digitOf_def)
  from u m k have l: "parseMetrics exampleExtern repeatedBody
       = foldl (scanLine exampleExtern) (0, 0) ([''conduit_bytes_uploaded 7''] @ [[]])"
    by blast
  from a b c d e g j i k l show ?thesis by blast
qed

text \<open>
  The specification leaves the malformed counter at its default of 0. In the response
  that gives the upload counter as 7 and then as \<open>abc\<close>, the second line names the
  counter and its value does not parse; the counter is 7 and the scrape returns 7.
\<close>

theorem malformed_counter_keeps_value_counterexample:
  "prefix ''conduit_bytes_uploaded '' ''conduit_bytes_uploaded abc''
   \<and> ParseFloat exampleExtern (Fields ''conduit_bytes_uploaded abc'' ! 1) = None
   \<and> splitLines repeatedBody = [''conduit_bytes_uploaded 7'', ''conduit_bytes_uploaded abc'', []]
   \<and> fst (parseMetrics exampleExtern repeatedBody) = 7
   \<and> scrapeBytesUsed exampleExtern (Response 200 (Some repeatedBody)) = Inr 7"
proof -
  have pm: "parseMetrics exampleExtern repeatedBody = (7, 0)"
    by (simp add: parseMetrics_def splitLines_repeatedBody scanLine_def counterValue_def
        Fields_example_lines exampleParseFloat parseDecimal_def digitOf_def)
  show ?thesis
    by (simp add: pm splitLines_repeatedBody scrapeBytesUsed_def Fields_example_lines
        exampleParseFloat parseDecimal_def digitOf_def)
qed

end
